theory Spec2Isabelle
  imports Main
begin

section \<open>JavaScript values\<close>

text \<open>
  Values that flow through the node function at run time: what \<open>JSON.parse\<close> and the HTTP
  client deliver (typed \<open>any\<close> in the source), plus \<open>undefined\<close> for an absent property.
  Numbers are modelled as integers (the only number the code computes with is the epoch
  second \<open>exp\<close>); strings are byte lists (UTF-8).
\<close>

datatype jsval =
    JUndefined
  | JNull
  | JBool bool
  | JNum int
  | JStr string
  | JArr "jsval list"
  | JObj "(string \<times> jsval) list"

text \<open>ToBoolean, as used by \<open>if (x)\<close>, \<open>!x\<close> and \<open>a || b\<close>.\<close>

fun truthy :: "jsval \<Rightarrow> bool" where
  "truthy JUndefined = False"
| "truthy JNull = False"
| "truthy (JBool b) = b"
| "truthy (JNum n) = (n \<noteq> 0)"
| "truthy (JStr s) = (s \<noteq> [])"
| "truthy (JArr xs) = True"
| "truthy (JObj fs) = True"

text \<open>
  Property read \<open>v.k\<close> on a value that is neither \<open>null\<close> nor \<open>undefined\<close>, for the
  property names the code uses (none of them is a built-in property of a string, number,
  boolean or array). A later duplicate key of an object wins, as in \<open>JSON.parse\<close>.
\<close>

fun get_prop :: "jsval \<Rightarrow> string \<Rightarrow> jsval" where
  "get_prop (JObj fs) k = (case map_of (rev fs) k of None \<Rightarrow> JUndefined | Some v \<Rightarrow> v)"
| "get_prop v k = JUndefined"

text \<open>An axios response: the parsed body and the HTTP status.\<close>

record axios_response =
  resp_data :: jsval
  resp_status :: nat

text \<open>
  A thrown error object: its \<open>name\<close>, its \<open>message\<close> and, for an axios error that carries
  one, its \<open>response\<close>. No error the code creates or receives has a \<open>step\<close> property.
\<close>

record js_error =
  err_name :: string
  err_message :: string
  err_response :: "axios_response option"

definition new_Error :: "string \<Rightarrow> js_error" where
  "new_Error m = \<lparr>err_name = ''Error'', err_message = m, err_response = None\<rparr>"

definition new_TypeError :: "string \<Rightarrow> js_error" where
  "new_TypeError m = \<lparr>err_name = ''TypeError'', err_message = m, err_response = None\<rparr>"

text \<open>Property read that throws on \<open>null\<close> and \<open>undefined\<close> (the message is the engine's).\<close>

definition member :: "jsval \<Rightarrow> string \<Rightarrow> js_error + jsval" where
  "member v k =
     (case v of
        JUndefined \<Rightarrow> Inl (new_TypeError (''Cannot read properties of undefined (reading '' @ [CHR 0x27] @ k @ [CHR 0x27] @ '')''))
      | JNull \<Rightarrow> Inl (new_TypeError (''Cannot read properties of null (reading '' @ [CHR 0x27] @ k @ [CHR 0x27] @ '')''))
      | _ \<Rightarrow> Inr (get_prop v k))"

section \<open>The platform\<close>

datatype http_method = GET | POST

datatype http_body = NoBody | FormBody string | JsonBody jsval

record request =
  req_method :: http_method
  req_url :: jsval
  req_body :: http_body
  req_headers :: "(string \<times> string) list"

datatype http_result = Resolved axios_response | Rejected js_error

record error_details =
  step :: string
  message :: string
  details :: "jsval + js_error"

text \<open>
  What the run time supplies to one invocation: the clock
  (\<open>Math.floor(Date.now() / 1000)\<close>), the HTTP client, \<open>Buffer.from(s, 'base64').toString('utf8')\<close>
  (total: it never throws on a string), \<open>JSON.parse\<close> (\<open>Inl\<close> the message of the
  \<open>SyntaxError\<close>) and ToNumber on a string (\<open>None\<close> is \<open>NaN\<close>).
\<close>

record env =
  now :: int
  http :: "request \<Rightarrow> http_result"
  buffer_base64_utf8 :: "string \<Rightarrow> string"
  json_parse :: "string \<Rightarrow> string + jsval"
  string_to_number :: "string \<Rightarrow> int option"

section \<open>decodeJWT\<close>

text \<open>\<open>s.split(c)\<close> for a one-character separator: never empty, keeps empty segments.\<close>

fun split_on :: "char \<Rightarrow> string \<Rightarrow> string list" where
  "split_on c [] = [[]]"
| "split_on c (x # xs) =
     (if x = c then [] # split_on c xs
      else (case split_on c xs of p # ps \<Rightarrow> (x # p) # ps | [] \<Rightarrow> [[x]]))"

definition decode_failure :: "string \<Rightarrow> js_error" where
  "decode_failure m = new_Error (''Failed to decode JWT: '' @ m)"

text \<open>
  \<open>decodeJWT\<close>: every error raised inside its \<open>try\<close> is rethrown as
  \<open>Failed to decode JWT: <message>\<close>. The argument is whatever the cache or the token
  response held; on a value that is not a string \<open>token.split\<close> is not a function.
\<close>

definition decodeJWT :: "env \<Rightarrow> jsval \<Rightarrow> js_error + jsval" where
  "decodeJWT e token =
     (case token of
        JStr t \<Rightarrow>
          (let parts = split_on CHR ''.'' t in
           if length parts \<noteq> 3 then Inl (decode_failure ''Invalid JWT format'')
           else
             (let payload = parts ! 1;
                  decoded = buffer_base64_utf8 e payload
              in case json_parse e decoded of
                   Inl m \<Rightarrow> Inl (decode_failure m)
                 | Inr v \<Rightarrow> Inr v))
      | _ \<Rightarrow> Inl (decode_failure ''token.split is not a function''))"

section \<open>String helpers of the platform\<close>

definition digit_char :: "nat \<Rightarrow> char" where
  "digit_char d = char_of (48 + d)"

fun decimal :: "nat \<Rightarrow> string" where
  "decimal n = (if n < 10 then [digit_char n] else decimal (n div 10) @ [digit_char (n mod 10)])"

declare decimal.simps [simp del]

definition int_string :: "int \<Rightarrow> string" where
  "int_string i = (if i < 0 then CHR ''-'' # decimal (nat (- i)) else decimal (nat i))"

fun join :: "string \<Rightarrow> string list \<Rightarrow> string" where
  "join sep [] = []"
| "join sep [x] = x"
| "join sep (x # y # ys) = x @ sep @ join sep (y # ys)"

text \<open>
  \<open>String(v)\<close>, which a template literal applies to every substitution (integers in
  decimal notation).
\<close>

fun js_string :: "jsval \<Rightarrow> string" where
  "js_string JUndefined = ''undefined''"
| "js_string JNull = ''null''"
| "js_string (JBool b) = (if b then ''true'' else ''false'')"
| "js_string (JNum n) = int_string n"
| "js_string (JStr s) = s"
| "js_string (JArr xs) =
     join '','' (map (\<lambda>x. if x = JNull \<or> x = JUndefined then [] else js_string x) xs)"
| "js_string (JObj fs) = ''[object Object]''"

definition hex_char :: "nat \<Rightarrow> char" where
  "hex_char d = (if d < 10 then char_of (48 + d) else char_of (55 + d))"

definition percent_byte :: "char \<Rightarrow> string" where
  "percent_byte c =
     [CHR ''%'', hex_char ((of_char c :: nat) div 16), hex_char ((of_char c :: nat) mod 16)]"

definition is_alnum :: "char \<Rightarrow> bool" where
  "is_alnum c =
     (let n = (of_char c :: nat)
      in (48 \<le> n \<and> n \<le> 57) \<or> (65 \<le> n \<and> n \<le> 90) \<or> (97 \<le> n \<and> n \<le> 122))"

text \<open>
  \<open>encodeURIComponent\<close> on a well-formed string: every UTF-8 byte outside
  \<open>A-Z a-z 0-9 - _ . ! ~ * ' ( )\<close> becomes \<open>%XX\<close>.
\<close>

definition uri_unreserved :: "char \<Rightarrow> bool" where
  "uri_unreserved c = (is_alnum c \<or> c \<in> set (''-_.!~*()'' @ [CHR 0x27]))"

definition encodeURIComponent :: "string \<Rightarrow> string" where
  "encodeURIComponent s = concat (map (\<lambda>c. if uri_unreserved c then [c] else percent_byte c) s)"

text \<open>\<open>URLSearchParams.toString()\<close>: the \<open>application/x-www-form-urlencoded\<close> serializer.\<close>

definition form_byte :: "char \<Rightarrow> string" where
  "form_byte c =
     (if c = CHR '' '' then ''+''
      else if is_alnum c \<or> c \<in> set ''*-._'' then [c]
      else percent_byte c)"

definition form_urlencode :: "(string \<times> string) list \<Rightarrow> string" where
  "form_urlencode kvs =
     join ''&'' (map (\<lambda>(k, v). concat (map form_byte k) @ ''='' @ concat (map form_byte v)) kvs)"

text \<open>\<open>Buffer.from(s).toString('base64')\<close>: standard alphabet, padded.\<close>

definition b64_char :: "nat \<Rightarrow> char" where
  "b64_char n =
     (if n < 26 then char_of (65 + n)
      else if n < 52 then char_of (71 + n)
      else if n < 62 then char_of (n - 4)
      else if n = 62 then CHR ''+'' else CHR ''/'')"

fun base64_encode :: "string \<Rightarrow> string" where
  "base64_encode [] = []"
| "base64_encode [a] =
     (let x = (of_char a :: nat)
      in [b64_char (x div 4), b64_char ((x mod 4) * 16), CHR ''='', CHR ''=''])"
| "base64_encode [a, b] =
     (let x = (of_char a :: nat); y = (of_char b :: nat)
      in [b64_char (x div 4), b64_char ((x mod 4) * 16 + y div 16),
          b64_char ((y mod 16) * 4), CHR ''=''])"
| "base64_encode (a # b # c # rest) =
     (let x = (of_char a :: nat); y = (of_char b :: nat); z = (of_char c :: nat)
      in [b64_char (x div 4), b64_char ((x mod 4) * 16 + y div 16),
          b64_char ((y mod 16) * 4 + z div 64), b64_char (z mod 64)] @ base64_encode rest)"

section \<open>isTokenExpired\<close>

text \<open>
  \<open>a < n\<close> for a number \<open>n\<close>: ToNumber on the left operand, false on \<open>NaN\<close>. An array
  is converted through its string, an object's string is not a number.
\<close>

definition js_less :: "env \<Rightarrow> jsval \<Rightarrow> int \<Rightarrow> bool" where
  "js_less e v n =
     (case v of
        JUndefined \<Rightarrow> False
      | JNull \<Rightarrow> 0 < n
      | JBool b \<Rightarrow> (if b then 1 else 0) < n
      | JNum m \<Rightarrow> m < n
      | JStr s \<Rightarrow> (case string_to_number e s of None \<Rightarrow> False | Some m \<Rightarrow> m < n)
      | JArr xs \<Rightarrow>
          (case string_to_number e (js_string (JArr xs)) of None \<Rightarrow> False | Some m \<Rightarrow> m < n)
      | JObj fs \<Rightarrow> False)"

definition isTokenExpired :: "env \<Rightarrow> jsval \<Rightarrow> js_error + bool" where
  "isTokenExpired e decodedToken =
     (case member decodedToken ''exp'' of
        Inl err \<Rightarrow> Inl err
      | Inr ex \<Rightarrow>
          if \<not> truthy ex then Inr True
          else (let currentTime = now e in Inr (js_less e ex (currentTime + 60))))"

section \<open>The node function signalApi\<close>

record signal_cache =
  token :: jsval
  tenantId :: jsval
  apiEndpoint :: jsval
  tokenEndpoint :: jsval
  error :: "error_details option"

definition empty_cache :: signal_cache where
  "empty_cache =
     \<lparr>token = JUndefined, tenantId = JUndefined, apiEndpoint = JUndefined,
      tokenEndpoint = JUndefined, error = None\<rparr>"

text \<open>
  What step 8 stores: \<open>signalResponse.data || signalResponse\<close> is the body when the body is
  truthy and the whole response object otherwise.
\<close>

datatype stored = StoredData jsval | StoredResponse axios_response

text \<open>
  The session context is one object: the cache lives under the key \<open>signal\<close>, the
  response under \<open>storageKey\<close>, which may be the same key.
\<close>

datatype ctx_val = CCache signal_cache | CStored stored

text \<open>
  A log message is its text; the message \<open>Error details: ${JSON.stringify(errorDetails)}\<close> is
  kept as the object it renders.
\<close>

datatype log_message = Msg string | ErrorDetailsMsg error_details

record node_state =
  ctxt :: "string \<rightharpoonup> ctx_val"
  input :: "string \<rightharpoonup> stored"
  logs :: "(string \<times> log_message) list"
  calls :: "request list"

record connection =
  username :: string
  password :: string

record config =
  basicAuthConnection :: connection
  appCredentialsConnection :: connection
  contactId :: string
  parameters :: "string list"
  storageType :: string
  storageKey :: string

definition BASE_URL :: string where
  "BASE_URL = ''https://cxone.niceincontact.com''"

definition API_VERSION :: string where
  "API_VERSION = ''v33.0''"

definition api_log_message :: "string \<Rightarrow> log_message \<Rightarrow> node_state \<Rightarrow> node_state" where
  "api_log_message level msg st = st\<lparr>logs := logs st @ [(level, msg)]\<rparr>"

definition api_log :: "string \<Rightarrow> string \<Rightarrow> node_state \<Rightarrow> node_state" where
  "api_log level msg st = api_log_message level (Msg msg) st"

text \<open>
  An awaited axios call \<open>r\<close>: the request is appended to the trace of outbound calls, and
  the platform's answer is \<open>http e r\<close>.
\<close>

definition record_call :: "request \<Rightarrow> node_state \<Rightarrow> node_state" where
  "record_call r st = st\<lparr>calls := calls st @ [r]\<rparr>"

text \<open>\<open>!context.signal\<close>.\<close>

definition signal_missing :: "node_state \<Rightarrow> bool" where
  "signal_missing st =
     (case ctxt st ''signal'' of
        None \<Rightarrow> True
      | Some (CCache c) \<Rightarrow> False
      | Some (CStored (StoredData v)) \<Rightarrow> \<not> truthy v
      | Some (CStored (StoredResponse r)) \<Rightarrow> False)"

definition init_signal :: "node_state \<Rightarrow> node_state" where
  "init_signal st =
     (if signal_missing st
      then st\<lparr>ctxt := (ctxt st)(''signal'' \<mapsto> CCache empty_cache)\<rparr>
      else st)"

text \<open>
  The declared type of \<open>context.signal\<close> is \<open>ISignalCache\<close>. A context whose \<open>signal\<close> is
  a truthy value of another shape is outside that type.
\<close>

definition signal_typed :: "node_state \<Rightarrow> bool" where
  "signal_typed st =
     (case ctxt st ''signal'' of Some (CStored v) \<Rightarrow> signal_missing st | _ \<Rightarrow> True)"

text \<open>
  \<open>signalCache\<close> is a reference to the object held by \<open>context.signal\<close>; a write to one of
  its fields changes that object. Between the initialisation and step 8, and in the catch
  handler, \<open>context.signal\<close> holds a cache object.
\<close>

definition signalCache :: "node_state \<Rightarrow> signal_cache" where
  "signalCache st = (case ctxt st ''signal'' of Some (CCache c) \<Rightarrow> c | _ \<Rightarrow> empty_cache)"

definition cache_write :: "(signal_cache \<Rightarrow> signal_cache) \<Rightarrow> node_state \<Rightarrow> node_state" where
  "cache_write f st = st\<lparr>ctxt := (ctxt st)(''signal'' \<mapsto> CCache (f (signalCache st)))\<rparr>"

record locals =
  l_token :: jsval
  l_tenantId :: jsval
  l_apiEndpoint :: jsval
  l_tokenEndpoint :: jsval
  needNewToken :: bool

subsection \<open>Step 1: is the cached token usable\<close>

definition check_cached_token :: "env \<Rightarrow> locals \<Rightarrow> node_state \<Rightarrow> locals \<times> node_state" where
  "check_cached_token e l st =
     (if truthy (l_token l) then
        (case decodeJWT e (l_token l) of
           Inl err \<Rightarrow> (l, api_log ''warn'' (''Token validation failed: '' @ err_message err) st)
         | Inr decodedToken \<Rightarrow>
             (case isTokenExpired e decodedToken of
                Inl err \<Rightarrow> (l, api_log ''warn'' (''Token validation failed: '' @ err_message err) st)
              | Inr expired \<Rightarrow>
                  if \<not> expired then
                    (l\<lparr>needNewToken := False, l_tenantId := get_prop decodedToken ''tenantId''\<rparr>,
                     api_log ''info'' ''Using cached valid token'' st)
                  else (l, api_log ''info'' ''Cached token expired, fetching new token'' st)))
      else (l, st))"

subsection \<open>Step 2: OpenID configuration\<close>

definition openid_request :: request where
  "openid_request =
     \<lparr>req_method = GET, req_url = JStr (BASE_URL @ ''/.well-known/openid-configuration''),
      req_body = NoBody, req_headers = []\<rparr>"

definition get_openid_configuration ::
  "env \<Rightarrow> locals \<Rightarrow> node_state \<Rightarrow> (js_error + locals) \<times> node_state" where
  "get_openid_configuration e l st =
     (if needNewToken l \<and> \<not> truthy (l_tokenEndpoint l) then
        (let st1 = api_log ''info'' ''Fetching OpenID configuration'' st;
             st2 = record_call openid_request st1
         in case http e openid_request of
              Rejected err \<Rightarrow> (Inl err, st2)
            | Resolved openidResponse \<Rightarrow>
                if \<not> truthy (resp_data openidResponse)
                   \<or> \<not> truthy (get_prop (resp_data openidResponse) ''token_endpoint'')
                then (Inl (new_Error ''Failed to retrieve token_endpoint from OpenID configuration''), st2)
                else
                  (let te = get_prop (resp_data openidResponse) ''token_endpoint'';
                       st3 = cache_write (\<lambda>c. c\<lparr>tokenEndpoint := te\<rparr>) st2
                   in (Inr (l\<lparr>l_tokenEndpoint := te\<rparr>),
                       api_log ''info'' (''Retrieved token endpoint: '' @ js_string te) st3)))
      else (Inr l, st))"

subsection \<open>Steps 3 and 4: access token and tenant id\<close>

definition token_request :: "config \<Rightarrow> jsval \<Rightarrow> request" where
  "token_request cfg te =
     (let basicAuthString =
            base64_encode (username (basicAuthConnection cfg) @ '':'' @ password (basicAuthConnection cfg));
          formData =
            [(''grant_type'', ''password''),
             (''username'', username (appCredentialsConnection cfg)),
             (''password'', password (appCredentialsConnection cfg))]
      in \<lparr>req_method = POST, req_url = te, req_body = FormBody (form_urlencode formData),
          req_headers =
            [(''Authorization'', ''Basic '' @ basicAuthString),
             (''Content-Type'', ''application/x-www-form-urlencoded'')]\<rparr>)"

definition get_access_token ::
  "env \<Rightarrow> config \<Rightarrow> locals \<Rightarrow> node_state \<Rightarrow> (js_error + locals) \<times> node_state" where
  "get_access_token e cfg l st =
     (if needNewToken l then
        (let st1 = api_log ''info'' ''Requesting access token'' st;
             st2 = record_call (token_request cfg (l_tokenEndpoint l)) st1
         in case http e (token_request cfg (l_tokenEndpoint l)) of
              Rejected err \<Rightarrow> (Inl err, st2)
            | Resolved tokenResponse \<Rightarrow>
                if \<not> truthy (resp_data tokenResponse)
                   \<or> \<not> truthy (get_prop (resp_data tokenResponse) ''access_token'')
                then (Inl (new_Error ''Failed to retrieve access token from response''), st2)
                else
                  (let tok = get_prop (resp_data tokenResponse) ''access_token'';
                       st3 = cache_write (\<lambda>c. c\<lparr>token := tok\<rparr>) st2;
                       st4 = api_log ''info'' ''Access token retrieved successfully'' st3
                   in case decodeJWT e tok of
                        Inl err \<Rightarrow> (Inl err, st4)
                      | Inr decodedToken \<Rightarrow>
                          (case member decodedToken ''tenantId'' of
                             Inl err \<Rightarrow> (Inl err, st4)
                           | Inr tid \<Rightarrow>
                               (let st5 = cache_write (\<lambda>c. c\<lparr>tenantId := tid\<rparr>) st4
                                in (Inr (l\<lparr>l_token := tok, l_tenantId := tid\<rparr>),
                                    api_log ''info'' (''Extracted tenant ID: '' @ js_string tid) st5)))))
      else (Inr l, st))"

subsection \<open>Step 5: API endpoint discovery\<close>

definition discovery_request :: "jsval \<Rightarrow> request" where
  "discovery_request tid =
     \<lparr>req_method = GET,
      req_url = JStr (BASE_URL @ ''/.well-known/cxone-configuration?tenantId='' @ js_string tid),
      req_body = NoBody, req_headers = []\<rparr>"

definition get_api_endpoint ::
  "env \<Rightarrow> locals \<Rightarrow> node_state \<Rightarrow> (js_error + locals) \<times> node_state" where
  "get_api_endpoint e l st =
     (if \<not> truthy (l_apiEndpoint l) then
        (let st1 = api_log ''info'' ''Fetching API endpoint from discovery service'' st;
             st2 = record_call (discovery_request (l_tenantId l)) st1
         in case http e (discovery_request (l_tenantId l)) of
              Rejected err \<Rightarrow> (Inl err, st2)
            | Resolved discoveryResponse \<Rightarrow>
                if \<not> truthy (resp_data discoveryResponse)
                   \<or> \<not> truthy (get_prop (resp_data discoveryResponse) ''api_endpoint'')
                then (Inl (new_Error ''Failed to retrieve api_endpoint from discovery service''), st2)
                else
                  (let ae = get_prop (resp_data discoveryResponse) ''api_endpoint'';
                       st3 = cache_write (\<lambda>c. c\<lparr>apiEndpoint := ae\<rparr>) st2
                   in (Inr (l\<lparr>l_apiEndpoint := ae\<rparr>),
                       api_log ''info'' (''Retrieved API endpoint: '' @ js_string ae) st3)))
      else (Inr l, st))"

subsection \<open>Step 6: the signal URL\<close>

definition queryParams :: "string list \<Rightarrow> string" where
  "queryParams ps =
     join ''&''
       (map (\<lambda>(index, value). ''p'' @ decimal (index + 1) @ ''='' @ encodeURIComponent value)
          (enumerate 0 (take 9 ps)))"

definition signal_path :: "jsval \<Rightarrow> string \<Rightarrow> string" where
  "signal_path ae cid =
     js_string ae @ ''/incontactapi/services/'' @ API_VERSION @ ''/interactions/'' @ cid @ ''/signal''"

definition signalUrl :: "jsval \<Rightarrow> string \<Rightarrow> string list \<Rightarrow> string" where
  "signalUrl ae cid ps =
     (if length ps > 0 then signal_path ae cid @ ''?'' @ queryParams ps else signal_path ae cid)"

subsection \<open>Steps 7 and 8: the call and the stored response\<close>

definition signal_request :: "config \<Rightarrow> jsval \<Rightarrow> jsval \<Rightarrow> request" where
  "signal_request cfg ae tok =
     \<lparr>req_method = POST,
      req_url = JStr (signalUrl ae (contactId cfg) (parameters cfg)),
      req_body = JsonBody (JObj []),
      req_headers =
        [(''Authorization'', ''Bearer '' @ js_string tok),
         (''Accept'', ''application/json'')]\<rparr>"

definition responseData :: "axios_response \<Rightarrow> stored" where
  "responseData signalResponse =
     (if truthy (resp_data signalResponse) then StoredData (resp_data signalResponse)
      else StoredResponse signalResponse)"

definition store_response :: "config \<Rightarrow> stored \<Rightarrow> node_state \<Rightarrow> node_state" where
  "store_response cfg d st =
     (if storageType cfg = ''context'' then
        api_log ''info'' (''Response stored in context.'' @ storageKey cfg)
          (st\<lparr>ctxt := (ctxt st)(storageKey cfg \<mapsto> CStored d)\<rparr>)
      else
        api_log ''info'' (''Response stored in input.'' @ storageKey cfg)
          (st\<lparr>input := (input st)(storageKey cfg \<mapsto> d)\<rparr>))"

definition call_signal_api ::
  "env \<Rightarrow> config \<Rightarrow> locals \<Rightarrow> node_state \<Rightarrow> js_error option \<times> node_state" where
  "call_signal_api e cfg l st =
     (let st1 =
            (if length (parameters cfg) > 0
             then api_log ''info''
                    (''Added '' @ decimal (length (parameters cfg)) @ '' parameters to Signal API call'') st
             else st);
          st2 = api_log ''info'' (''Calling Signal API for contact ID: '' @ contactId cfg) st1;
          st3 = record_call (signal_request cfg (l_apiEndpoint l) (l_token l)) st2
      in case http e (signal_request cfg (l_apiEndpoint l) (l_token l)) of
           Rejected err \<Rightarrow> (Some err, st3)
         | Resolved signalResponse \<Rightarrow>
             (let st4 = api_log ''info'' ''Signal API call successful'' st3
              in (None, store_response cfg (responseData signalResponse) st4)))"

subsection \<open>The try block, the catch handler, the invocation\<close>

definition signalApi_try :: "env \<Rightarrow> config \<Rightarrow> node_state \<Rightarrow> js_error option \<times> node_state" where
  "signalApi_try e cfg st0 =
     (let st = init_signal st0;
          l = \<lparr>l_token = token (signalCache st), l_tenantId = tenantId (signalCache st),
               l_apiEndpoint = apiEndpoint (signalCache st),
               l_tokenEndpoint = tokenEndpoint (signalCache st), needNewToken = True\<rparr>;
          (l1, st1) = check_cached_token e l st
      in case get_openid_configuration e l1 st1 of
           (Inl err, st2) \<Rightarrow> (Some err, st2)
         | (Inr l2, st2) \<Rightarrow>
             (case get_access_token e cfg l2 st2 of
                (Inl err, st3) \<Rightarrow> (Some err, st3)
              | (Inr l3, st3) \<Rightarrow>
                  (case get_api_endpoint e l3 st3 of
                     (Inl err, st4) \<Rightarrow> (Some err, st4)
                   | (Inr l4, st4) \<Rightarrow> call_signal_api e cfg l4 st4)))"

text \<open>\<open>String(error)\<close> for an error object.\<close>

definition error_string :: "js_error \<Rightarrow> string" where
  "error_string err =
     (if err_message err = [] then err_name err
      else if err_name err = [] then err_message err
      else err_name err @ '': '' @ err_message err)"

text \<open>\<open>error.step\<close>: no thrown error has that property.\<close>

definition err_step :: "js_error \<Rightarrow> jsval" where
  "err_step err = JUndefined"

definition errorDetails :: "js_error \<Rightarrow> error_details" where
  "errorDetails err =
     \<lparr>step = (if truthy (err_step err) then js_string (err_step err) else ''unknown''),
      message = (if err_message err \<noteq> [] then err_message err else error_string err),
      details =
        (case err_response err of
           None \<Rightarrow> Inr err
         | Some r \<Rightarrow> if truthy (resp_data r) then Inl (resp_data r) else Inr err)\<rparr>"

definition signalApi_catch :: "js_error \<Rightarrow> node_state \<Rightarrow> node_state" where
  "signalApi_catch err st0 =
     (let d = errorDetails err;
          st1 = init_signal st0;
          st2 = cache_write (\<lambda>c. c\<lparr>error := Some d\<rparr>) st1;
          st3 = api_log ''error'' (''Signal API Error: '' @ message d) st2
      in api_log_message ''error'' (ErrorDetailsMsg d) st3)"

text \<open>
  One invocation either returns (the promise resolves) with the new state, or the context it
  was given is outside the declared type of the cache.
\<close>

datatype outcome = Returned node_state | OutsideModel

definition signalApi :: "env \<Rightarrow> config \<Rightarrow> node_state \<Rightarrow> outcome" where
  "signalApi e cfg st =
     (if \<not> signal_typed st then OutsideModel
      else
        (case signalApi_try e cfg st of
           (None, st') \<Rightarrow> Returned st'
         | (Some err, st') \<Rightarrow> Returned (signalApi_catch err st')))"

section \<open>A concrete platform for the worked examples\<close>

text \<open>
  The base64 decoder of \<open>Buffer.from(s, 'base64')\<close>: it accepts the standard and the URL-safe
  alphabet, skips every other character, stops at the first \<open>=\<close> and drops an incomplete
  last group. The bytes it yields are read as a string (exact when they are ASCII).
\<close>

definition unbase64 :: "char \<Rightarrow> nat option" where
  "unbase64 c =
     (let n = (of_char c :: nat)
      in if 65 \<le> n \<and> n \<le> 90 then Some (n - 65)
         else if 97 \<le> n \<and> n \<le> 122 then Some (n - 71)
         else if 48 \<le> n \<and> n \<le> 57 then Some (n + 4)
         else if c = CHR ''+'' \<or> c = CHR ''-'' then Some 62
         else if c = CHR ''/'' \<or> c = CHR ''_'' then Some 63
         else None)"

fun sextets :: "string \<Rightarrow> nat list" where
  "sextets [] = []"
| "sextets (c # cs) =
     (if c = CHR ''='' then []
      else (case unbase64 c of None \<Rightarrow> sextets cs | Some v \<Rightarrow> v # sextets cs))"

fun sextet_bytes :: "nat list \<Rightarrow> string" where
  "sextet_bytes (a # b # c # d # rest) =
     [char_of (a * 4 + b div 16), char_of ((b mod 16) * 16 + c div 4), char_of ((c mod 4) * 64 + d)]
     @ sextet_bytes rest"
| "sextet_bytes [a, b, c] = [char_of (a * 4 + b div 16), char_of ((b mod 16) * 16 + c div 4)]"
| "sextet_bytes [a, b] = [char_of (a * 4 + b div 16)]"
| "sextet_bytes xs = []"

definition node_base64_decode :: "string \<Rightarrow> string" where
  "node_base64_decode s = sextet_bytes (sextets s)"

text \<open>
  \<open>JSON.parse\<close> on the fragment of JSON with integer numbers and the one-character string
  escapes; the examples stay inside it. The fuel is the length of the text, and every
  recursive call consumes a character.
\<close>

definition is_ws :: "char \<Rightarrow> bool" where
  "is_ws c = (c = CHR '' '' \<or> c = CHR 0x09 \<or> c = CHR 0x0A \<or> c = CHR 0x0D)"

definition is_digit :: "char \<Rightarrow> bool" where
  "is_digit c = (48 \<le> (of_char c :: nat) \<and> (of_char c :: nat) \<le> 57)"

definition skip_ws :: "string \<Rightarrow> string" where
  "skip_ws s = dropWhile is_ws s"

definition digits_value :: "string \<Rightarrow> int" where
  "digits_value ds = foldl (\<lambda>acc c. acc * 10 + ((of_char c :: int) - 48)) 0 ds"

definition unescape :: "char \<Rightarrow> char option" where
  "unescape c =
     (if c = CHR 0x22 \<or> c = CHR 0x5C \<or> c = CHR ''/'' then Some c
      else if c = CHR ''b'' then Some (CHR 0x08)
      else if c = CHR ''f'' then Some (CHR 0x0C)
      else if c = CHR ''n'' then Some (CHR 0x0A)
      else if c = CHR ''r'' then Some (CHR 0x0D)
      else if c = CHR ''t'' then Some (CHR 0x09)
      else None)"

fun parse_string :: "string \<Rightarrow> (string \<times> string) option" where
  "parse_string [] = None"
| "parse_string (c # cs) =
     (if c = CHR 0x22 then Some ([], cs)
      else if (of_char c :: nat) < 32 then None
      else if c = CHR 0x5C then
        (case cs of
           [] \<Rightarrow> None
         | x # xs \<Rightarrow>
             (case unescape x of
                None \<Rightarrow> None
              | Some u \<Rightarrow> (case parse_string xs of None \<Rightarrow> None | Some (r, rest) \<Rightarrow> Some (u # r, rest))))
      else (case parse_string cs of None \<Rightarrow> None | Some (r, rest) \<Rightarrow> Some (c # r, rest)))"

definition parse_number :: "string \<Rightarrow> (jsval \<times> string) option" where
  "parse_number s =
     (let neg = (s \<noteq> [] \<and> hd s = CHR ''-'');
          body = (if neg then tl s else s);
          ds = takeWhile is_digit body;
          rest = dropWhile is_digit body
      in if ds = [] \<or> (length ds > 1 \<and> hd ds = CHR ''0'') then None
         else if rest \<noteq> [] \<and> hd rest \<in> set ''.eE'' then None
         else Some (JNum (if neg then - digits_value ds else digits_value ds), rest))"

fun parse_value :: "nat \<Rightarrow> string \<Rightarrow> (jsval \<times> string) option"
  and parse_members :: "nat \<Rightarrow> (string \<times> jsval) list \<Rightarrow> string \<Rightarrow> (jsval \<times> string) option"
  and parse_elements :: "nat \<Rightarrow> jsval list \<Rightarrow> string \<Rightarrow> (jsval \<times> string) option"
where
  "parse_value 0 s = None"
| "parse_value (Suc n) s =
     (case skip_ws s of
        [] \<Rightarrow> None
      | c # cs \<Rightarrow>
          if c = CHR ''{'' then
            (case skip_ws cs of
               [] \<Rightarrow> None
             | d # ds \<Rightarrow> if d = CHR ''}'' then Some (JObj [], ds) else parse_members n [] (d # ds))
          else if c = CHR ''['' then
            (case skip_ws cs of
               [] \<Rightarrow> None
             | d # ds \<Rightarrow> if d = CHR '']'' then Some (JArr [], ds) else parse_elements n [] (d # ds))
          else if c = CHR 0x22 then
            (case parse_string cs of None \<Rightarrow> None | Some (str, rest) \<Rightarrow> Some (JStr str, rest))
          else if take 4 (c # cs) = ''true'' then Some (JBool True, drop 4 (c # cs))
          else if take 5 (c # cs) = ''false'' then Some (JBool False, drop 5 (c # cs))
          else if take 4 (c # cs) = ''null'' then Some (JNull, drop 4 (c # cs))
          else parse_number (c # cs))"
| "parse_members 0 acc s = None"
| "parse_members (Suc n) acc s =
     (case skip_ws s of
        [] \<Rightarrow> None
      | c # cs \<Rightarrow>
          if c \<noteq> CHR 0x22 then None
          else
            (case parse_string cs of
               None \<Rightarrow> None
             | Some (k, r1) \<Rightarrow>
                 (case skip_ws r1 of
                    [] \<Rightarrow> None
                  | d # r2 \<Rightarrow>
                      if d \<noteq> CHR '':'' then None
                      else
                        (case parse_value n r2 of
                           None \<Rightarrow> None
                         | Some (v, r3) \<Rightarrow>
                             (case skip_ws r3 of
                                [] \<Rightarrow> None
                              | x # r4 \<Rightarrow>
                                  if x = CHR ''}'' then Some (JObj (acc @ [(k, v)]), r4)
                                  else if x = CHR '','' then parse_members n (acc @ [(k, v)]) r4
                                  else None)))))"
| "parse_elements 0 acc s = None"
| "parse_elements (Suc n) acc s =
     (case parse_value n s of
        None \<Rightarrow> None
      | Some (v, r1) \<Rightarrow>
          (case skip_ws r1 of
             [] \<Rightarrow> None
           | x # r2 \<Rightarrow>
               if x = CHR '']'' then Some (JArr (acc @ [v]), r2)
               else if x = CHR '','' then parse_elements n (acc @ [v]) r2
               else None))"

definition json_parse_text :: "string \<Rightarrow> string + jsval" where
  "json_parse_text s =
     (case parse_value (Suc (length s)) s of
        None \<Rightarrow> Inl ''Unexpected token in JSON''
      | Some (v, rest) \<Rightarrow> if skip_ws rest = [] then Inr v else Inl ''Unexpected token in JSON'')"

text \<open>ToNumber on a string, for decimal integer literals (anything else counts as \<open>NaN\<close>).\<close>

definition decimal_to_number :: "string \<Rightarrow> int option" where
  "decimal_to_number s =
     (let t = rev (skip_ws (rev (skip_ws s)));
          neg = (t \<noteq> [] \<and> hd t = CHR ''-'');
          body = (if neg then tl t else t)
      in if t = [] then Some 0
         else if body \<noteq> [] \<and> list_all is_digit body
         then Some (if neg then - digits_value body else digits_value body)
         else None)"

definition platform :: "int \<Rightarrow> (request \<Rightarrow> http_result) \<Rightarrow> env" where
  "platform t h =
     \<lparr>now = t, http = h, buffer_base64_utf8 = node_base64_decode,
      json_parse = json_parse_text, string_to_number = decimal_to_number\<rparr>"

text \<open>
  A remote for the examples, answering by URL: the OpenID configuration, the token endpoint
  it names, and by method for the rest (\<open>GET\<close> is the discovery service, \<open>POST\<close> the
  Signal API). \<open>None\<close> makes the call fail with a network error.
\<close>

definition network_error :: js_error where
  "network_error = \<lparr>err_name = ''AxiosError'', err_message = ''Network Error'', err_response = None\<rparr>"

definition answer :: "jsval option \<Rightarrow> http_result" where
  "answer b =
     (case b of None \<Rightarrow> Rejected network_error
      | Some d \<Rightarrow> Resolved \<lparr>resp_data = d, resp_status = 200\<rparr>)"

definition remote_token_endpoint :: string where
  "remote_token_endpoint = ''https://cxone.niceincontact.com/auth/token''"

definition remote ::
  "jsval option \<Rightarrow> jsval option \<Rightarrow> jsval option \<Rightarrow> jsval option \<Rightarrow> request \<Rightarrow> http_result" where
  "remote openid tok disc sig r =
     (if req_url r = JStr (BASE_URL @ ''/.well-known/openid-configuration'') then answer openid
      else if req_url r = JStr remote_token_endpoint then answer tok
      else if req_method r = GET then answer disc
      else answer sig)"

text \<open>
  A token whose middle segment is the base64url text of
  \<open>{"exp":4102444800,"tenantId":"t1"}\<close> (expiry in the year 2100), and one whose expiry
  is \<open>1000\<close>.
\<close>

definition fresh_token :: string where
  "fresh_token = ''h.eyJleHAiOjQxMDI0NDQ4MDAsInRlbmFudElkIjoidDEifQ.s''"

definition stale_token :: string where
  "stale_token = ''h.eyJleHAiOjEwMDAsInRlbmFudElkIjoidDEifQ.s''"

definition empty_state :: node_state where
  "empty_state = \<lparr>ctxt = Map.empty, input = Map.empty, logs = [], calls = []\<rparr>"

definition example_config :: config where
  "example_config =
     \<lparr>basicAuthConnection = \<lparr>username = ''client'', password = ''secret''\<rparr>,
      appCredentialsConnection = \<lparr>username = ''user'', password = ''pw''\<rparr>,
      contactId = ''abc123'', parameters = [''x''],
      storageType = ''context'', storageKey = ''signalResponse''\<rparr>"

text \<open>What an invocation leaves behind, when it returns.\<close>

definition cache_after :: "outcome \<Rightarrow> signal_cache option" where
  "cache_after out =
     (case out of
        Returned st \<Rightarrow> (case ctxt st ''signal'' of Some (CCache c) \<Rightarrow> Some c | _ \<Rightarrow> None)
      | OutsideModel \<Rightarrow> None)"

definition calls_after :: "outcome \<Rightarrow> (http_method \<times> jsval) list" where
  "calls_after out =
     (case out of
        Returned st \<Rightarrow> map (\<lambda>r. (req_method r, req_url r)) (calls st)
      | OutsideModel \<Rightarrow> [])"

section \<open>Vocabulary of the proofs\<close>

text \<open>
  \<open>has_cache\<close>: \<open>context.signal\<close> holds a cache object. \<open>same_outside\<close>: two states agree on
  the input and on every context key other than \<open>signal\<close>. \<open>linked\<close>: the local variables
  of the try block agree with the cache they were read from. \<open>evolves\<close>: how the try block
  may change the cache. \<open>prepare\<close>: steps 1 to 5 of the try block, as one function.
\<close>

definition has_cache :: "node_state \<Rightarrow> bool" where
  "has_cache st = (case ctxt st ''signal'' of Some (CCache c) \<Rightarrow> True | _ \<Rightarrow> False)"

definition same_outside :: "node_state \<Rightarrow> node_state \<Rightarrow> bool" where
  "same_outside st st' \<longleftrightarrow>
     input st' = input st \<and> (\<forall>k. k \<noteq> ''signal'' \<longrightarrow> ctxt st' k = ctxt st k)"

definition linked :: "locals \<Rightarrow> node_state \<Rightarrow> bool" where
  "linked l st \<longleftrightarrow>
     has_cache st \<and> l_token l = token (signalCache st)
     \<and> l_tokenEndpoint l = tokenEndpoint (signalCache st)
     \<and> l_apiEndpoint l = apiEndpoint (signalCache st)"

definition evolves :: "env \<Rightarrow> config \<Rightarrow> signal_cache \<Rightarrow> signal_cache \<Rightarrow> bool" where
  "evolves e cfg c c' \<longleftrightarrow>
     (truthy (tokenEndpoint c) \<longrightarrow> tokenEndpoint c' = tokenEndpoint c)
     \<and> (truthy (apiEndpoint c) \<longrightarrow> apiEndpoint c' = apiEndpoint c)
     \<and> error c' = error c
     \<and> ((token c' = token c \<and> tenantId c' = tenantId c)
        \<or> (truthy (token c')
           \<and> (\<exists>te r. http e (token_request cfg te) = Resolved r
                  \<and> token c' = get_prop (resp_data r) ''access_token'')))"

definition prepare :: "env \<Rightarrow> config \<Rightarrow> node_state \<Rightarrow> (js_error + locals) \<times> node_state" where
  "prepare e cfg st0 =
     (let st = init_signal st0;
          l = \<lparr>l_token = token (signalCache st), l_tenantId = tenantId (signalCache st),
               l_apiEndpoint = apiEndpoint (signalCache st),
               l_tokenEndpoint = tokenEndpoint (signalCache st), needNewToken = True\<rparr>;
          (l1, st1) = check_cached_token e l st
      in case get_openid_configuration e l1 st1 of
           (Inl err, st2) \<Rightarrow> (Inl err, st2)
         | (Inr l2, st2) \<Rightarrow>
             (case get_access_token e cfg l2 st2 of
                (Inl err, st3) \<Rightarrow> (Inl err, st3)
              | (Inr l3, st3) \<Rightarrow> get_api_endpoint e l3 st3))"

definition stored_after :: "string \<Rightarrow> outcome \<Rightarrow> ctx_val option" where
  "stored_after k out = (case out of Returned st \<Rightarrow> ctxt st k | OutsideModel \<Rightarrow> None)"

text \<open>The states and remotes of the examples.\<close>

definition cached_state :: "signal_cache \<Rightarrow> node_state" where
  "cached_state c = \<lparr>ctxt = [''signal'' \<mapsto> CCache c], input = Map.empty, logs = [], calls = []\<rparr>"

definition healthy_remote :: "request \<Rightarrow> http_result" where
  "healthy_remote =
     remote (Some (JObj [(''token_endpoint'', JStr remote_token_endpoint)]))
       (Some (JObj [(''access_token'', JStr fresh_token)]))
       (Some (JObj [(''api_endpoint'', JStr ''https://api.example'')]))
       (Some (JObj [(''ok'', JBool True)]))"

definition fresh_claims :: jsval where
  "fresh_claims = JObj [(''exp'', JNum 4102444800), (''tenantId'', JStr ''t1'')]"

definition stale_claims :: jsval where
  "stale_claims = JObj [(''exp'', JNum 1000), (''tenantId'', JStr ''t1'')]"

definition error_after :: "outcome \<Rightarrow> error_details option" where
  "error_after out = (case cache_after out of Some c \<Rightarrow> error c | None \<Rightarrow> None)"

definition stale_cache :: signal_cache where
  "stale_cache =
     \<lparr>token = JStr stale_token, tenantId = JStr ''t1'', apiEndpoint = JUndefined,
      tokenEndpoint = JStr remote_token_endpoint, error = None\<rparr>"

definition valid_cache :: signal_cache where
  "valid_cache =
     \<lparr>token = JStr fresh_token, tenantId = JStr ''t1'', apiEndpoint = JStr ''https://api.example'',
      tokenEndpoint = JStr remote_token_endpoint, error = None\<rparr>"

definition token_only_cache :: signal_cache where
  "token_only_cache =
     \<lparr>token = JStr fresh_token, tenantId = JUndefined, apiEndpoint = JUndefined,
      tokenEndpoint = JUndefined, error = None\<rparr>"

section \<open>The specification's vocabulary\<close>

text \<open>
  The specification's notion of a valid base64url segment: only characters of the URL-safe
  alphabet.
\<close>

definition spec_valid_base64url :: "string \<Rightarrow> bool" where
  "spec_valid_base64url s = list_all (\<lambda>c. is_alnum c \<or> c = CHR ''-'' \<or> c = CHR ''_'') s"

section \<open>How the steps act on the state\<close>

lemma api_log_message_proj [simp]:
  "ctxt (api_log_message lv m st) = ctxt st"
  "input (api_log_message lv m st) = input st"
  "calls (api_log_message lv m st) = calls st"
  "logs (api_log_message lv m st) = logs st @ [(lv, m)]"
  by (simp_all add: api_log_message_def)

lemma api_log_proj [simp]:
  "ctxt (api_log lv s st) = ctxt st"
  "input (api_log lv s st) = input st"
  "calls (api_log lv s st) = calls st"
  "logs (api_log lv s st) = logs st @ [(lv, Msg s)]"
  by (simp_all add: api_log_def)

lemma record_call_proj [simp]:
  "ctxt (record_call r st) = ctxt st"
  "input (record_call r st) = input st"
  "calls (record_call r st) = calls st @ [r]"
  "logs (record_call r st) = logs st"
  by (simp_all add: record_call_def)

lemma cache_write_proj [simp]:
  "ctxt (cache_write f st) = (ctxt st)(''signal'' \<mapsto> CCache (f (signalCache st)))"
  "input (cache_write f st) = input st"
  "calls (cache_write f st) = calls st"
  "logs (cache_write f st) = logs st"
  by (simp_all add: cache_write_def)

lemma signalCache_proj [simp]:
  "signalCache (api_log_message lv m st) = signalCache st"
  "signalCache (api_log lv s st) = signalCache st"
  "signalCache (record_call r st) = signalCache st"
  "signalCache (cache_write f st) = f (signalCache st)"
  by (simp_all add: signalCache_def)

lemma init_signal_proj [simp]:
  "input (init_signal st) = input st"
  "calls (init_signal st) = calls st"
  "logs (init_signal st) = logs st"
  "k \<noteq> ''signal'' \<Longrightarrow> ctxt (init_signal st) k = ctxt st k"
  by (simp_all add: init_signal_def)

lemma signalCache_init [simp]:
  "signal_typed st \<Longrightarrow> signalCache (init_signal st) = signalCache st"
  by (auto simp: signal_typed_def init_signal_def signalCache_def signal_missing_def
           split: option.splits ctx_val.splits stored.splits)

lemma ctxt_init_signal:
  "signal_typed st \<Longrightarrow> ctxt (init_signal st) ''signal'' = Some (CCache (signalCache st))"
  by (auto simp: signal_typed_def init_signal_def signalCache_def signal_missing_def
           split: option.splits ctx_val.splits stored.splits)

lemma truthy_get_prop: "truthy (get_prop v k) \<Longrightarrow> truthy v"
  by (cases v) auto



lemma has_cache_proj [simp]:
  "has_cache (api_log_message lv m st) = has_cache st"
  "has_cache (api_log lv s st) = has_cache st"
  "has_cache (record_call r st) = has_cache st"
  "has_cache (cache_write f st) = True"
  by (simp_all add: has_cache_def)

lemma has_cache_init: "signal_typed st \<Longrightarrow> has_cache (init_signal st)"
  by (simp add: has_cache_def ctxt_init_signal)

lemma has_cache_ctxt: "has_cache st \<Longrightarrow> ctxt st ''signal'' = Some (CCache (signalCache st))"
  by (auto simp: has_cache_def signalCache_def split: option.splits ctx_val.splits)

lemma same_outside_refl [simp]: "same_outside st st"
  by (simp add: same_outside_def)

lemma same_outside_trans: "same_outside a b \<Longrightarrow> same_outside b c \<Longrightarrow> same_outside a c"
  by (simp add: same_outside_def)

lemma same_outside_proj [simp]:
  "same_outside st (api_log_message lv m st') = same_outside st st'"
  "same_outside st (api_log lv s st') = same_outside st st'"
  "same_outside st (record_call r st') = same_outside st st'"
  "same_outside st (cache_write f st') = same_outside st st'"
  by (simp_all add: same_outside_def)

lemma same_outside_init [simp]: "same_outside st (init_signal st)"
  by (simp add: same_outside_def)

lemma evolves_refl [simp]: "evolves e cfg c c"
  by (simp add: evolves_def)

lemma evolves_trans: "evolves e cfg a b \<Longrightarrow> evolves e cfg b c \<Longrightarrow> evolves e cfg a c"
  unfolding evolves_def by metis

lemma check_cached_token_step:
  assumes "linked l st" and "check_cached_token e l st = (l', st')"
  shows "same_outside st st'" and "signalCache st' = signalCache st" and "linked l' st'"
  using assms
  by (auto simp: check_cached_token_def linked_def split: if_splits sum.splits)

lemma get_openid_configuration_step:
  assumes "linked l st" and "get_openid_configuration e l st = (res, st')"
  shows "same_outside st st'" and "evolves e cfg (signalCache st) (signalCache st')"
    and "has_cache st'" and "\<And>l'. res = Inr l' \<Longrightarrow> linked l' st'"
  using assms
  by (auto simp: get_openid_configuration_def linked_def evolves_def Let_def
      split: if_splits http_result.splits)

lemma get_access_token_step:
  assumes "linked l st" and "get_access_token e cfg l st = (res, st')"
  shows "same_outside st st'" and "evolves e cfg (signalCache st) (signalCache st')"
    and "has_cache st'" and "\<And>l'. res = Inr l' \<Longrightarrow> linked l' st'"
  using assms
  by (auto simp: get_access_token_def linked_def evolves_def Let_def
      split: if_splits http_result.splits sum.splits) blast+

lemma get_api_endpoint_step:
  assumes "linked l st" and "get_api_endpoint e l st = (res, st')"
  shows "same_outside st st'" and "evolves e cfg (signalCache st) (signalCache st')"
    and "has_cache st'" and "\<And>l'. res = Inr l' \<Longrightarrow> linked l' st'"
  using assms
  by (auto simp: get_api_endpoint_def linked_def evolves_def Let_def
      split: if_splits http_result.splits)


section \<open>The try block and the catch handler as a whole\<close>

lemma store_response_proj [simp]:
  "ctxt (store_response cfg d st) =
     (if storageType cfg = ''context'' then (ctxt st)(storageKey cfg \<mapsto> CStored d) else ctxt st)"
  "input (store_response cfg d st) =
     (if storageType cfg = ''context'' then input st else (input st)(storageKey cfg \<mapsto> d))"
  "calls (store_response cfg d st) = calls st"
  by (simp_all add: store_response_def)

lemma signalApi_try_prepare:
  "signalApi_try e cfg st =
     (case prepare e cfg st of
        (Inl err, st') \<Rightarrow> (Some err, st')
      | (Inr l, st') \<Rightarrow> call_signal_api e cfg l st')"
  by (simp add: signalApi_try_def prepare_def Let_def split: prod.splits sum.splits)

lemma prepare_summary:
  assumes typed: "signal_typed st" and run: "prepare e cfg st = (res, st')"
  shows "same_outside st st'" and "evolves e cfg (signalCache st) (signalCache st')"
    and "has_cache st'" and "\<And>l. res = Inr l \<Longrightarrow> linked l st'"
proof -
  let ?s0 = "init_signal st"
  let ?l0 = "\<lparr>l_token = token (signalCache ?s0), l_tenantId = tenantId (signalCache ?s0),
               l_apiEndpoint = apiEndpoint (signalCache ?s0),
               l_tokenEndpoint = tokenEndpoint (signalCache ?s0), needNewToken = True\<rparr>"
  have L0: "linked ?l0 ?s0"
    using typed by (simp add: linked_def has_cache_init)
  obtain l1 s1 where c1: "check_cached_token e ?l0 ?s0 = (l1, s1)" by force
  note A = check_cached_token_step [OF L0 c1]
  obtain r2 s2 where c2: "get_openid_configuration e l1 s1 = (r2, s2)" by force
  note B = get_openid_configuration_step [OF A(3) c2]
  have o2: "same_outside st s2"
    using A(1) B(1) same_outside_init [of st] by (blast intro: same_outside_trans)
  have e2: "evolves e cfg (signalCache st) (signalCache s2)"
    using B(2) A(2) typed by simp
  have goal: "same_outside st st' \<and> evolves e cfg (signalCache st) (signalCache st')
      \<and> has_cache st' \<and> (\<forall>l. res = Inr l \<longrightarrow> linked l st')"
  proof (cases r2)
    case (Inl err)
    with run c1 c2 have "res = Inl err" "st' = s2"
      by (simp_all add: prepare_def Let_def)
    with o2 e2 B(3) show ?thesis by simp
  next
    case (Inr l2)
    obtain r3 s3 where c3: "get_access_token e cfg l2 s2 = (r3, s3)" by force
    note C = get_access_token_step [OF B(4) [OF Inr] c3]
    have o3: "same_outside st s3" using o2 C(1) by (blast intro: same_outside_trans)
    have e3: "evolves e cfg (signalCache st) (signalCache s3)"
      using e2 C(2) by (blast intro: evolves_trans)
    show ?thesis
    proof (cases r3)
      case (Inl err)
      with run c1 c2 c3 \<open>r2 = Inr l2\<close> have "res = Inl err" "st' = s3"
        by (simp_all add: prepare_def Let_def)
      with o3 e3 C(3) show ?thesis by simp
    next
      case (Inr l3)
      with run c1 c2 c3 \<open>r2 = Inr l2\<close> have c4: "get_api_endpoint e l3 s3 = (res, st')"
        by (simp add: prepare_def Let_def)
      note D = get_api_endpoint_step [OF C(4) [OF Inr] c4]
      have "same_outside st st'" using o3 D(1) by (blast intro: same_outside_trans)
      moreover have "evolves e cfg (signalCache st) (signalCache st')"
        using e3 D(2) by (blast intro: evolves_trans)
      ultimately show ?thesis using D(3) D(4) by blast
    qed
  qed
  from goal show "same_outside st st'" and "evolves e cfg (signalCache st) (signalCache st')"
    and "has_cache st'" and "\<And>l. res = Inr l \<Longrightarrow> linked l st'"
    by blast+
qed

lemma call_signal_api_failure:
  assumes "call_signal_api e cfg l st = (Some err, st')"
  shows "ctxt st' = ctxt st" and "input st' = input st"
  using assms
  by (auto simp: call_signal_api_def Let_def split: http_result.splits if_splits)

lemma call_signal_api_success:
  assumes "call_signal_api e cfg l st = (None, st')"
  shows "\<exists>r. http e (signal_request cfg (l_apiEndpoint l) (l_token l)) = Resolved r
           \<and> calls st' = calls st @ [signal_request cfg (l_apiEndpoint l) (l_token l)]
           \<and> ctxt st' =
               (if storageType cfg = ''context''
                then (ctxt st)(storageKey cfg \<mapsto> CStored (responseData r)) else ctxt st)
           \<and> input st' =
               (if storageType cfg = ''context'' then input st
                else (input st)(storageKey cfg \<mapsto> responseData r))"
  using assms
  by (auto simp: call_signal_api_def Let_def split: http_result.splits if_splits)

lemma try_failure:
  assumes typed: "signal_typed st" and run: "signalApi_try e cfg st = (Some err, st1)"
  shows "same_outside st st1" and "evolves e cfg (signalCache st) (signalCache st1)"
    and "has_cache st1"
proof -
  obtain res s4 where p: "prepare e cfg st = (res, s4)" by force
  note P = prepare_summary [OF typed p]
  have "same_outside st st1 \<and> evolves e cfg (signalCache st) (signalCache st1) \<and> has_cache st1"
  proof (cases res)
    case (Inl err')
    with run p have "st1 = s4" by (simp add: signalApi_try_prepare)
    with P show ?thesis by simp
  next
    case (Inr l)
    with run p have c: "call_signal_api e cfg l s4 = (Some err, st1)"
      by (simp add: signalApi_try_prepare)
    from call_signal_api_failure [OF c] have "ctxt st1 = ctxt s4" "input st1 = input s4" .
    then have "same_outside s4 st1" "signalCache st1 = signalCache s4" "has_cache st1 = has_cache s4"
      by (simp_all add: same_outside_def signalCache_def has_cache_def)
    with P show ?thesis by (auto intro: same_outside_trans)
  qed
  then show "same_outside st st1" and "evolves e cfg (signalCache st) (signalCache st1)"
    and "has_cache st1" by blast+
qed

lemma try_success:
  assumes typed: "signal_typed st" and run: "signalApi_try e cfg st = (None, st1)"
  shows "\<exists>l s4 r. prepare e cfg st = (Inr l, s4) \<and> linked l s4 \<and> same_outside st s4
           \<and> evolves e cfg (signalCache st) (signalCache s4)
           \<and> http e (signal_request cfg (l_apiEndpoint l) (l_token l)) = Resolved r
           \<and> calls st1 = calls s4 @ [signal_request cfg (l_apiEndpoint l) (l_token l)]
           \<and> ctxt st1 =
               (if storageType cfg = ''context''
                then (ctxt s4)(storageKey cfg \<mapsto> CStored (responseData r)) else ctxt s4)
           \<and> input st1 =
               (if storageType cfg = ''context'' then input s4
                else (input s4)(storageKey cfg \<mapsto> responseData r))"
proof -
  obtain res s4 where p: "prepare e cfg st = (res, s4)" by force
  note P = prepare_summary [OF typed p]
  from run p obtain l where r: "res = Inr l" and c: "call_signal_api e cfg l s4 = (None, st1)"
    by (cases res) (simp_all add: signalApi_try_prepare)
  from call_signal_api_success [OF c] P(1,2) P(4) [OF r] p r show ?thesis
    by blast
qed

lemma signalApi_catch_proj [simp]:
  "ctxt (signalApi_catch err st) =
     (ctxt (init_signal st))(''signal'' \<mapsto> CCache ((signalCache (init_signal st))\<lparr>error := Some (errorDetails err)\<rparr>))"
  "input (signalApi_catch err st) = input st"
  "calls (signalApi_catch err st) = calls st"
  "logs (signalApi_catch err st) =
     logs st @ [(''error'', Msg (''Signal API Error: '' @ message (errorDetails err))),
                (''error'', ErrorDetailsMsg (errorDetails err))]"
  by (simp_all add: signalApi_catch_def Let_def)

lemma init_signal_has_cache: "has_cache st \<Longrightarrow> init_signal st = st"
  by (auto simp: has_cache_def init_signal_def signal_missing_def split: option.splits ctx_val.splits)

lemma signalApi_cases:
  "signal_typed st \<Longrightarrow> fst (signalApi_try e cfg st) = None \<Longrightarrow>
     signalApi e cfg st = Returned (snd (signalApi_try e cfg st))"
  "signal_typed st \<Longrightarrow> fst (signalApi_try e cfg st) = Some err \<Longrightarrow>
     signalApi e cfg st = Returned (signalApi_catch err (snd (signalApi_try e cfg st)))"
  by (auto simp: signalApi_def split: prod.splits)


section \<open>Runs of the pipeline\<close>

lemmas step_defs = signalApi_try_def check_cached_token_def get_openid_configuration_def
  get_access_token_def get_api_endpoint_def call_signal_api_def Let_def

lemma decodeJWT_truthy: "decodeJWT e tok = Inr v \<Longrightarrow> truthy tok"
  by (cases tok) (auto simp: decodeJWT_def Let_def split: if_splits)

lemma failure_cache_after:
  assumes typed: "signal_typed st" and fail: "fst (signalApi_try e cfg st) = Some err"
  shows "cache_after (signalApi e cfg st) =
           Some ((signalCache (snd (signalApi_try e cfg st)))\<lparr>error := Some (errorDetails err)\<rparr>)"
proof -
  from fail have run: "signalApi_try e cfg st = (Some err, snd (signalApi_try e cfg st))"
    by (simp add: prod_eq_iff)
  from try_failure(3) [OF typed run] have "init_signal (snd (signalApi_try e cfg st)) = snd (signalApi_try e cfg st)"
    by (rule init_signal_has_cache)
  then show ?thesis
    by (simp add: signalApi_cases(2) [OF typed fail] cache_after_def)
qed

lemma full_refresh_run:
  assumes typed: "signal_typed st"
    and no_token: "\<not> truthy (token (signalCache st))"
    and no_te: "\<not> truthy (tokenEndpoint (signalCache st))"
    and no_ae: "\<not> truthy (apiEndpoint (signalCache st))"
    and openid: "http e openid_request = Resolved r1"
    and te: "te = get_prop (resp_data r1) ''token_endpoint''" "truthy te"
    and tokreq: "http e (token_request cfg te) = Resolved r2"
    and tok: "tok = get_prop (resp_data r2) ''access_token''" "truthy tok"
    and dec: "decodeJWT e tok = Inr claims" "member claims ''tenantId'' = Inr tid"
    and disc: "http e (discovery_request tid) = Resolved r3"
    and ae: "ae = get_prop (resp_data r3) ''api_endpoint''" "truthy ae"
    and sig: "http e (signal_request cfg ae tok) = Resolved r4"
  shows "fst (signalApi_try e cfg st) = None"
    and "calls (snd (signalApi_try e cfg st)) =
           calls st @ [openid_request, token_request cfg te, discovery_request tid, signal_request cfg ae tok]"
    and "\<not> (storageType cfg = ''context'' \<and> storageKey cfg = ''signal'') \<Longrightarrow>
           ctxt (snd (signalApi_try e cfg st)) ''signal'' =
             Some (CCache ((signalCache st)\<lparr>tokenEndpoint := te, token := tok, tenantId := tid, apiEndpoint := ae\<rparr>))"
proof -
  from te have d1: "truthy (resp_data r1)" by (auto dest: truthy_get_prop)
  from tok have d2: "truthy (resp_data r2)" by (auto dest: truthy_get_prop)
  from ae have d3: "truthy (resp_data r3)" by (auto dest: truthy_get_prop)
  note facts = typed no_token no_te no_ae openid te(2) te(1)[symmetric] tokreq tok(2) tok(1)[symmetric]
      dec disc ae(2) ae(1)[symmetric] sig d1 d2 d3
  show "fst (signalApi_try e cfg st) = None"
    using facts by (simp add: step_defs)
  show "calls (snd (signalApi_try e cfg st)) =
           calls st @ [openid_request, token_request cfg te, discovery_request tid, signal_request cfg ae tok]"
    using facts by (simp add: step_defs)
  show "ctxt (snd (signalApi_try e cfg st)) ''signal'' =
             Some (CCache ((signalCache st)\<lparr>tokenEndpoint := te, token := tok, tenantId := tid, apiEndpoint := ae\<rparr>))"
    if "\<not> (storageType cfg = ''context'' \<and> storageKey cfg = ''signal'')"
    using facts that by (auto simp: step_defs)
qed

lemma cached_valid_run:
  assumes has: "ctxt st ''signal'' = Some (CCache c)"
    and dec: "decodeJWT e (token c) = Inr claims"
    and fresh: "isTokenExpired e claims = Inr False"
  shows "calls (snd (signalApi_try e cfg st)) =
           calls st @
             (if truthy (apiEndpoint c) then [signal_request cfg (apiEndpoint c) (token c)]
              else discovery_request (get_prop claims ''tenantId'') #
                (case http e (discovery_request (get_prop claims ''tenantId'')) of
                   Resolved r \<Rightarrow>
                     if truthy (get_prop (resp_data r) ''api_endpoint'')
                     then [signal_request cfg (get_prop (resp_data r) ''api_endpoint'') (token c)]
                     else []
                 | Rejected err \<Rightarrow> []))"
proof -
  from has have typed: "signal_typed st" and sc: "signalCache st = c"
    by (simp_all add: signal_typed_def signalCache_def)
  from dec have tr: "truthy (token c)" by (rule decodeJWT_truthy)
  have g: "\<And>r. truthy (get_prop (resp_data r) ''api_endpoint'') \<Longrightarrow> truthy (resp_data r)"
    by (rule truthy_get_prop)
  show ?thesis
    using typed sc tr dec fresh
    by (auto simp: step_defs dest: g split: http_result.splits)
qed

lemma cached_valid_store:
  assumes has: "ctxt st ''signal'' = Some (CCache c)"
    and dec: "decodeJWT e (token c) = Inr claims"
    and fresh: "isTokenExpired e claims = Inr False"
    and ae: "truthy (apiEndpoint c)"
    and sig: "http e (signal_request cfg (apiEndpoint c) (token c)) = Resolved r"
  shows "fst (signalApi_try e cfg st) = None"
    and "storageType cfg = ''context'' \<Longrightarrow>
           ctxt (snd (signalApi_try e cfg st)) (storageKey cfg) = Some (CStored (responseData r))"
proof -
  from has have typed: "signal_typed st" and sc: "signalCache st = c"
    by (simp_all add: signal_typed_def signalCache_def)
  from dec have tr: "truthy (token c)" by (rule decodeJWT_truthy)
  show "fst (signalApi_try e cfg st) = None"
    using typed sc tr dec fresh ae sig by (simp add: step_defs)
  show "ctxt (snd (signalApi_try e cfg st)) (storageKey cfg) = Some (CStored (responseData r))"
    if "storageType cfg = ''context''"
    using typed sc tr dec fresh ae sig that by (simp add: step_defs)
qed

lemma openid_missing_run:
  assumes typed: "signal_typed st"
    and no_token: "\<not> truthy (token (signalCache st))"
    and no_te: "\<not> truthy (tokenEndpoint (signalCache st))"
    and openid: "http e openid_request = Resolved r1"
    and te: "\<not> truthy (get_prop (resp_data r1) ''token_endpoint'')"
  shows "fst (signalApi_try e cfg st) =
           Some (new_Error ''Failed to retrieve token_endpoint from OpenID configuration'')"
    and "signalCache (snd (signalApi_try e cfg st)) = signalCache st"
    and "calls (snd (signalApi_try e cfg st)) = calls st @ [openid_request]"
  using assms by (simp_all add: step_defs)

lemma token_missing_run:
  assumes typed: "signal_typed st"
    and no_token: "\<not> truthy (token (signalCache st))"
    and no_te: "\<not> truthy (tokenEndpoint (signalCache st))"
    and openid: "http e openid_request = Resolved r1"
    and te: "te = get_prop (resp_data r1) ''token_endpoint''" "truthy te"
    and tokreq: "http e (token_request cfg te) = Resolved r2"
    and tok: "\<not> truthy (get_prop (resp_data r2) ''access_token'')"
  shows "fst (signalApi_try e cfg st) =
           Some (new_Error ''Failed to retrieve access token from response'')"
    and "signalCache (snd (signalApi_try e cfg st)) = (signalCache st)\<lparr>tokenEndpoint := te\<rparr>"
    and "calls (snd (signalApi_try e cfg st)) = calls st @ [openid_request, token_request cfg te]"
proof -
  from te have d1: "truthy (resp_data r1)" by (auto dest: truthy_get_prop)
  note facts = typed no_token no_te openid te(2) te(1)[symmetric] tokreq tok d1
  show "fst (signalApi_try e cfg st) =
           Some (new_Error ''Failed to retrieve access token from response'')"
    using facts by (simp add: step_defs)
  show "signalCache (snd (signalApi_try e cfg st)) = (signalCache st)\<lparr>tokenEndpoint := te\<rparr>"
    using facts by (simp add: step_defs)
  show "calls (snd (signalApi_try e cfg st)) = calls st @ [openid_request, token_request cfg te]"
    using facts by (simp add: step_defs)
qed

lemma expired_rejected_run:
  assumes has: "ctxt st ''signal'' = Some (CCache c)"
    and dec: "decodeJWT e (token c) = Inr claims"
    and expired: "isTokenExpired e claims = Inr True"
    and te: "truthy (tokenEndpoint c)"
    and tokreq: "http e (token_request cfg (tokenEndpoint c)) = Rejected err"
  shows "fst (signalApi_try e cfg st) = Some err"
    and "signalCache (snd (signalApi_try e cfg st)) = c"
    and "calls (snd (signalApi_try e cfg st)) = calls st @ [token_request cfg (tokenEndpoint c)]"
proof -
  from has have typed: "signal_typed st" and sc: "signalCache st = c"
    by (simp_all add: signal_typed_def signalCache_def)
  from dec have tr: "truthy (token c)" by (rule decodeJWT_truthy)
  note facts = typed sc tr dec expired te tokreq
  show "fst (signalApi_try e cfg st) = Some err" using facts by (simp add: step_defs)
  show "signalCache (snd (signalApi_try e cfg st)) = c" using facts by (simp add: step_defs)
  show "calls (snd (signalApi_try e cfg st)) = calls st @ [token_request cfg (tokenEndpoint c)]"
    using facts by (simp add: step_defs)
qed


section \<open>decodeJWT\<close>

lemma parse_example:
  "json_parse (platform t h) (buffer_base64_utf8 (platform t h) ''e30!'') = Inr (JObj [])"
  unfolding platform_def by code_simp

text \<open>
  C7, as the code has it. \<open>decodeJWT\<close> fails exactly when the token does not split into
  three dot-separated segments or the text that the base64 decoder yields for the middle
  segment is not JSON; the decoder itself never fails. For every other token the result is
  the value parsed from the middle segment (any JSON value, not only an object).
\<close>

theorem decodeJWT_fails_iff:
  "((\<exists>err. decodeJWT e (JStr t) = Inl err) \<longleftrightarrow>
      (length (split_on CHR ''.'' t) \<noteq> 3
       \<or> (\<exists>m. json_parse e (buffer_base64_utf8 e (split_on CHR ''.'' t ! 1)) = Inl m)))
   \<and> (decodeJWT e (JStr t) = Inr v \<longleftrightarrow>
      (length (split_on CHR ''.'' t) = 3
       \<and> json_parse e (buffer_base64_utf8 e (split_on CHR ''.'' t ! 1)) = Inr v))"
  by (auto simp: decodeJWT_def Let_def split: sum.splits)

theorem decodeJWT_fails_iff_witness:
  "decodeJWT (platform 0 (remote None None None None)) (JStr ''a.e30!.c'') = Inr (JObj [])
   \<and> (\<exists>err. decodeJWT (platform 0 (remote None None None None)) (JStr ''a.b'') = Inl err)"
proof -
  have s2: "length (split_on CHR ''.'' ''a.b'') \<noteq> 3" by simp
  have a: "decodeJWT (platform 0 (remote None None None None)) (JStr ''a.e30!.c'') = Inr (JObj [])"
    using decodeJWT_fails_iff [of "platform 0 (remote None None None None)" "''a.e30!.c''" "JObj []"]
    by (simp add: parse_example)
  have b: "\<exists>err. decodeJWT (platform 0 (remote None None None None)) (JStr ''a.b'') = Inl err"
    using decodeJWT_fails_iff [of "platform 0 (remote None None None None)" "''a.b''"] s2 by blast
  from a b show ?thesis by blast
qed

text \<open>
  C7 as stated fails: the middle segment \<open>e30!\<close> of the three-segment token \<open>a.e30!.c\<close> is
  not valid base64url, yet decoding succeeds, because the decoder skips the \<open>!\<close> and
  yields \<open>{}\<close>.
\<close>

theorem decodeJWT_base64_counterexample:
  "\<not> spec_valid_base64url ''e30!''
   \<and> length (split_on CHR ''.'' ''a.e30!.c'') = 3
   \<and> split_on CHR ''.'' ''a.e30!.c'' ! 1 = ''e30!''
   \<and> decodeJWT (platform 0 (remote None None None None)) (JStr ''a.e30!.c'') = Inr (JObj [])"
  by code_simp

section \<open>The signal URL\<close>



text \<open>
  The examples of the specification: eleven parameters give \<open>p1\<close> to \<open>p9\<close> only, and
  a value is percent-encoded.
\<close>

lemma queryParams_eleven:
  "queryParams [''a'', ''b'', ''c'', ''d'', ''e'', ''f'', ''g'', ''h'', ''i'', ''j'', ''k''] =
     ''p1=a&p2=b&p3=c&p4=d&p5=e&p6=f&p7=g&p8=h&p9=i''"
  by code_simp

lemma queryParams_encoded: "queryParams [''a b&c''] = ''p1=a%20b%26c''"
  by code_simp

section \<open>The example platform\<close>

lemma platform_proj [simp]:
  "now (platform t h) = t"
  "http (platform t h) = h"
  by (simp_all add: platform_def)

lemma remote_openid: "remote a b c d openid_request = answer a"
  by (simp add: remote_def openid_request_def)

lemma remote_token: "remote a b c d (token_request cfg (JStr remote_token_endpoint)) = answer b"
  by (simp add: remote_def token_request_def Let_def remote_token_endpoint_def BASE_URL_def)

lemma remote_discovery: "remote a b c d (discovery_request tid) = answer c"
  by (simp add: remote_def discovery_request_def remote_token_endpoint_def BASE_URL_def)

lemma remote_signal:
  "remote a b c d (signal_request cfg (JStr ''https://api.example'') tok) = answer d"
  by (simp add: remote_def signal_request_def signalUrl_def signal_path_def
        remote_token_endpoint_def BASE_URL_def)

lemma decode_fresh: "decodeJWT (platform t h) (JStr fresh_token) = Inr fresh_claims"
  unfolding decodeJWT_def platform_def fresh_claims_def by code_simp

lemma decode_stale: "decodeJWT (platform t h) (JStr stale_token) = Inr stale_claims"
  unfolding decodeJWT_def platform_def stale_claims_def by code_simp

lemma fresh_not_expired: "isTokenExpired (platform 1700000000 h) fresh_claims = Inr False"
  by (simp add: isTokenExpired_def member_def fresh_claims_def js_less_def)

lemma stale_expired: "isTokenExpired (platform 1700000000 h) stale_claims = Inr True"
  by (simp add: isTokenExpired_def member_def stale_claims_def js_less_def)

lemma typed_empty_state [simp]:
  "signal_typed empty_state" "signalCache empty_state = empty_cache"
  by (simp_all add: signal_typed_def empty_state_def signalCache_def)

lemma remote_token_endpoint_nonempty [simp]: "remote_token_endpoint \<noteq> []"
  by (simp add: remote_token_endpoint_def)

lemma fresh_token_nonempty [simp]: "fresh_token \<noteq> []" "stale_token \<noteq> []"
  by (simp_all add: fresh_token_def stale_token_def)


section \<open>Failure of an invocation\<close>


lemma cached_state_proj [simp]:
  "ctxt (cached_state c) ''signal'' = Some (CCache c)"
  "signal_typed (cached_state c)"
  "signalCache (cached_state c) = c"
  "calls (cached_state c) = []"
  by (simp_all add: cached_state_def signal_typed_def signalCache_def)


lemma cache_after_Returned:
  "ctxt st' ''signal'' = Some (CCache c) \<Longrightarrow> cache_after (Returned st') = Some c"
  by (simp add: cache_after_def)









text \<open>
  C8, as the code has it. No invocation clears a cache field when it finds the cached token
  expired. Unless the response is stored over the cache (context storage under the key
  \<open>signal\<close>), after an invocation the cache keeps a truthy \<open>tokenEndpoint\<close> and a truthy
  \<open>apiEndpoint\<close> unchanged, and \<open>token\<close> and \<open>tenantId\<close> are both unchanged unless a
  token request of this invocation resolved with the (truthy) access token now cached.
\<close>

theorem cache_fields_after:
  assumes "signal_typed st"
    and "\<not> (storageType cfg = ''context'' \<and> storageKey cfg = ''signal'')"
  shows "\<exists>st' c'. signalApi e cfg st = Returned st' \<and> ctxt st' ''signal'' = Some (CCache c')
           \<and> (truthy (tokenEndpoint (signalCache st)) \<longrightarrow> tokenEndpoint c' = tokenEndpoint (signalCache st))
           \<and> (truthy (apiEndpoint (signalCache st)) \<longrightarrow> apiEndpoint c' = apiEndpoint (signalCache st))
           \<and> ((token c' = token (signalCache st) \<and> tenantId c' = tenantId (signalCache st))
              \<or> (truthy (token c')
                 \<and> (\<exists>te r. http e (token_request cfg te) = Resolved r
                        \<and> token c' = get_prop (resp_data r) ''access_token'')))"
proof (cases "fst (signalApi_try e cfg st)")
  case None
  let ?s1 = "snd (signalApi_try e cfg st)"
  from None have run: "signalApi_try e cfg st = (None, ?s1)" by (simp add: prod_eq_iff)
  from try_success [OF assms(1) run] obtain l s4 r where
    lk: "linked l s4" and ev: "evolves e cfg (signalCache st) (signalCache s4)"
    and cx: "ctxt ?s1 = (if storageType cfg = ''context''
                then (ctxt s4)(storageKey cfg \<mapsto> CStored (responseData r)) else ctxt s4)"
    by blast
  from lk have hc: "ctxt s4 ''signal'' = Some (CCache (signalCache s4))"
    by (simp add: linked_def has_cache_ctxt)
  from cx hc assms(2) have "ctxt ?s1 ''signal'' = Some (CCache (signalCache s4))"
    by auto
  with ev signalApi_cases(1) [OF assms(1) None] show ?thesis
    unfolding evolves_def by auto
next
  case (Some err)
  let ?s1 = "snd (signalApi_try e cfg st)"
  from Some have run: "signalApi_try e cfg st = (Some err, ?s1)" by (simp add: prod_eq_iff)
  note F = try_failure [OF assms(1) run]
  from F(3) have i: "init_signal ?s1 = ?s1" by (rule init_signal_has_cache)
  have "ctxt (signalApi_catch err ?s1) ''signal'' =
      Some (CCache ((signalCache ?s1)\<lparr>error := Some (errorDetails err)\<rparr>))"
    using i by simp
  with F(2) signalApi_cases(2) [OF assms(1) Some] show ?thesis
    unfolding evolves_def by auto
qed


section \<open>The cache across invocations, and the stored response\<close>

lemma example_config_proj [simp]:
  "storageType example_config = ''context''"
  "storageKey example_config = ''signalResponse''"
  "contactId example_config = ''abc123''"
  "parameters example_config = [''x'']"
  by (simp_all add: example_config_def)

lemma stale_run:
  "fst (signalApi_try (platform 1700000000 (remote None None None None)) example_config
          (cached_state stale_cache)) = Some network_error"
  "signalCache (snd (signalApi_try (platform 1700000000 (remote None None None None)) example_config
          (cached_state stale_cache))) = stale_cache"
proof -
  let ?e = "platform 1700000000 (remote None None None None)"
  have 1: "ctxt (cached_state stale_cache) ''signal'' = Some (CCache stale_cache)" by simp
  have 2: "decodeJWT ?e (token stale_cache) = Inr stale_claims"
    by (simp add: stale_cache_def decode_stale)
  have 3: "isTokenExpired ?e stale_claims = Inr True" by (rule stale_expired)
  have 4: "truthy (tokenEndpoint stale_cache)" by (simp add: stale_cache_def)
  have 5: "http ?e (token_request example_config (tokenEndpoint stale_cache)) = Rejected network_error"
    by (simp add: stale_cache_def remote_token answer_def)
  show "fst (signalApi_try ?e example_config (cached_state stale_cache)) = Some network_error"
    by (rule expired_rejected_run(1) [OF 1 2 3 4 5])
  show "signalCache (snd (signalApi_try ?e example_config (cached_state stale_cache))) = stale_cache"
    by (rule expired_rejected_run(2) [OF 1 2 3 4 5])
qed

theorem cache_fields_after_witness:
  "signal_typed (cached_state stale_cache)
   \<and> \<not> (storageType example_config = ''context'' \<and> storageKey example_config = ''signal'')
   \<and> map_option tokenEndpoint
        (cache_after (signalApi (platform 1700000000 (remote None None None None)) example_config
           (cached_state stale_cache))) = Some (JStr remote_token_endpoint)"
proof -
  let ?e = "platform 1700000000 (remote None None None None)"
  have t: "signal_typed (cached_state stale_cache)" by simp
  have a: "\<not> (storageType example_config = ''context'' \<and> storageKey example_config = ''signal'')"
    by simp
  from cache_fields_after [OF t a, of ?e]
  obtain st' c' where r: "signalApi ?e example_config (cached_state stale_cache) = Returned st'"
    and c: "ctxt st' ''signal'' = Some (CCache c')"
    and k: "truthy (tokenEndpoint (signalCache (cached_state stale_cache))) \<longrightarrow>
            tokenEndpoint c' = tokenEndpoint (signalCache (cached_state stale_cache))"
    by blast
  from k have "tokenEndpoint c' = JStr remote_token_endpoint"
    by (simp add: stale_cache_def)
  with r c t a show ?thesis
    by (simp add: cache_after_Returned)
qed

text \<open>
  C8 as stated fails. The cache holds a token that expired (at second 1000) with its tenant
  id and the token endpoint; the token request fails with a network error. The invocation
  detected the expiry and returns, and the stale token and tenant id are still cached.
\<close>

theorem stale_pair_remains_counterexample:
  "decodeJWT (platform 1700000000 (remote None None None None)) (token stale_cache) = Inr stale_claims
   \<and> isTokenExpired (platform 1700000000 (remote None None None None)) stale_claims = Inr True
   \<and> map_option token
        (cache_after (signalApi (platform 1700000000 (remote None None None None)) example_config
           (cached_state stale_cache))) = Some (JStr stale_token)
   \<and> map_option tenantId
        (cache_after (signalApi (platform 1700000000 (remote None None None None)) example_config
           (cached_state stale_cache))) = Some (JStr ''t1'')"
proof -
  let ?e = "platform 1700000000 (remote None None None None)"
  have "cache_after (signalApi ?e example_config (cached_state stale_cache)) =
      Some (stale_cache\<lparr>error := Some (errorDetails network_error)\<rparr>)"
    using failure_cache_after [of "cached_state stale_cache" ?e example_config network_error]
    by (simp add: stale_run)
  then show ?thesis
    by (simp add: stale_cache_def decode_stale stale_expired)
qed

text \<open>
  C9, as the code has it. After a successful signal call the value stored under the storage
  key (in the context when \<open>storageType\<close> is \<open>context\<close>, in the input otherwise) is the
  response body when the body is truthy, and the whole response object when the body is
  falsy (an empty string, zero, \<open>false\<close>, \<open>null\<close>).
\<close>

theorem stored_response:
  assumes "signal_typed st" and "fst (signalApi_try e cfg st) = None"
  shows "\<exists>st' r. signalApi e cfg st = Returned st'
           \<and> calls st' \<noteq> [] \<and> (\<exists>ae tok. last (calls st') = signal_request cfg ae tok)
           \<and> http e (last (calls st')) = Resolved r
           \<and> (storageType cfg = ''context'' \<longrightarrow>
                ctxt st' (storageKey cfg) =
                  Some (CStored (if truthy (resp_data r) then StoredData (resp_data r)
                                 else StoredResponse r)))
           \<and> (storageType cfg \<noteq> ''context'' \<longrightarrow>
                input st' (storageKey cfg) =
                  Some (if truthy (resp_data r) then StoredData (resp_data r)
                        else StoredResponse r))"
proof -
  let ?s1 = "snd (signalApi_try e cfg st)"
  from assms(2) have run: "signalApi_try e cfg st = (None, ?s1)" by (simp add: prod_eq_iff)
  from try_success [OF assms(1) run] show ?thesis
  proof (elim exE conjE)
    fix l s4 r
    assume h: "http e (signal_request cfg (l_apiEndpoint l) (l_token l)) = Resolved r"
      and cl: "calls ?s1 = calls s4 @ [signal_request cfg (l_apiEndpoint l) (l_token l)]"
      and cx: "ctxt ?s1 = (if storageType cfg = ''context''
                  then (ctxt s4)(storageKey cfg \<mapsto> CStored (responseData r)) else ctxt s4)"
      and ix: "input ?s1 = (if storageType cfg = ''context'' then input s4
                  else (input s4)(storageKey cfg \<mapsto> responseData r))"
    have 1: "signalApi e cfg st = Returned ?s1" by (rule signalApi_cases(1) [OF assms])
    have 2: "calls ?s1 \<noteq> []"
      and 3: "last (calls ?s1) = signal_request cfg (l_apiEndpoint l) (l_token l)"
      using cl by simp_all
    from 3 h have 4: "http e (last (calls ?s1)) = Resolved r" by simp
    from 3 have 5: "\<exists>ae tok. last (calls ?s1) = signal_request cfg ae tok" by blast
    have 6: "storageType cfg = ''context'' \<longrightarrow>
        ctxt ?s1 (storageKey cfg) =
          Some (CStored (if truthy (resp_data r) then StoredData (resp_data r) else StoredResponse r))"
      using cx by (simp add: responseData_def)
    have 7: "storageType cfg \<noteq> ''context'' \<longrightarrow>
        input ?s1 (storageKey cfg) =
          Some (if truthy (resp_data r) then StoredData (resp_data r) else StoredResponse r)"
      using ix by (simp add: responseData_def)
    from 1 2 4 5 6 7 show ?thesis by blast
  qed
qed

lemma valid_run:
  assumes "d = Some body"
  shows "fst (signalApi_try (platform 1700000000 (remote a b c d)) example_config
            (cached_state valid_cache)) = None"
    and "ctxt (snd (signalApi_try (platform 1700000000 (remote a b c d)) example_config
            (cached_state valid_cache))) ''signalResponse'' =
          Some (CStored (responseData \<lparr>resp_data = body, resp_status = 200\<rparr>))"
proof -
  let ?e = "platform 1700000000 (remote a b c d)"
  have 1: "ctxt (cached_state valid_cache) ''signal'' = Some (CCache valid_cache)" by simp
  have 2: "decodeJWT ?e (token valid_cache) = Inr fresh_claims"
    by (simp add: valid_cache_def decode_fresh)
  have 3: "isTokenExpired ?e fresh_claims = Inr False" by (rule fresh_not_expired)
  have 4: "truthy (apiEndpoint valid_cache)" by (simp add: valid_cache_def)
  have 5: "http ?e (signal_request example_config (apiEndpoint valid_cache) (token valid_cache)) =
      Resolved \<lparr>resp_data = body, resp_status = 200\<rparr>"
    using assms by (simp add: valid_cache_def remote_signal answer_def)
  show "fst (signalApi_try ?e example_config (cached_state valid_cache)) = None"
    by (rule cached_valid_store(1) [OF 1 2 3 4 5])
  from cached_valid_store(2) [OF 1 2 3 4 5]
  show "ctxt (snd (signalApi_try ?e example_config (cached_state valid_cache))) ''signalResponse'' =
          Some (CStored (responseData \<lparr>resp_data = body, resp_status = 200\<rparr>))"
    by simp
qed

lemma valid_run_calls:
  "calls (snd (signalApi_try (platform 1700000000 (remote a b c d)) example_config
            (cached_state valid_cache))) =
     [signal_request example_config (JStr ''https://api.example'') (JStr fresh_token)]"
  using cached_valid_run [of "cached_state valid_cache" valid_cache
      "platform 1700000000 (remote a b c d)" fresh_claims example_config]
  by (simp add: valid_cache_def decode_fresh fresh_not_expired)

theorem stored_response_witness:
  "signal_typed (cached_state valid_cache)
   \<and> fst (signalApi_try (platform 1700000000 healthy_remote) example_config
            (cached_state valid_cache)) = None
   \<and> stored_after ''signalResponse''
        (signalApi (platform 1700000000 healthy_remote) example_config (cached_state valid_cache)) =
       Some (CStored (StoredData (JObj [(''ok'', JBool True)])))"
proof -
  let ?e = "platform 1700000000 healthy_remote"
  let ?st = "cached_state valid_cache"
  have t: "signal_typed ?st" by simp
  have f: "fst (signalApi_try ?e example_config ?st) = None"
    unfolding healthy_remote_def by (rule valid_run(1)) simp
  from stored_response [OF t f] obtain st' r where
    r: "signalApi ?e example_config ?st = Returned st'"
    and h: "http ?e (last (calls st')) = Resolved r"
    and s: "ctxt st' (storageKey example_config) =
              Some (CStored (if truthy (resp_data r) then StoredData (resp_data r) else StoredResponse r))"
    by auto
  from r signalApi_cases(1) [OF t f] have "st' = snd (signalApi_try ?e example_config ?st)"
    by simp
  then have "last (calls st') =
      signal_request example_config (JStr ''https://api.example'') (JStr fresh_token)"
    by (simp add: healthy_remote_def valid_run_calls)
  with h have "r = \<lparr>resp_data = JObj [(''ok'', JBool True)], resp_status = 200\<rparr>"
    by (simp add: healthy_remote_def remote_signal answer_def)
  with s r t f show ?thesis
    by (simp add: stored_after_def)
qed

text \<open>
  C9 as stated fails for a falsy body: the token and the API endpoint are cached and valid,
  the Signal API answers with the empty string, and what is stored under the storage key is
  the response object, not the body.
\<close>

theorem stored_response_counterexample:
  "stored_after ''signalResponse''
     (signalApi (platform 1700000000 (remote None None None (Some (JStr [])))) example_config
        (cached_state valid_cache)) =
     Some (CStored (StoredResponse \<lparr>resp_data = JStr [], resp_status = 200\<rparr>))
   \<and> Some (CStored (StoredResponse \<lparr>resp_data = JStr [], resp_status = 200\<rparr>)) \<noteq>
     Some (CStored (StoredData (JStr [])))"
proof -
  let ?e = "platform 1700000000 (remote None None None (Some (JStr [])))"
  let ?st = "cached_state valid_cache"
  have t: "signal_typed ?st" by simp
  have f: "fst (signalApi_try ?e example_config ?st) = None"
    by (rule valid_run(1)) simp
  have "ctxt (snd (signalApi_try ?e example_config ?st)) ''signalResponse'' =
      Some (CStored (responseData \<lparr>resp_data = JStr [], resp_status = 200\<rparr>))"
    by (rule valid_run(2)) simp
  then show ?thesis
    by (simp add: signalApi_cases(1) [OF t f] stored_after_def responseData_def)
qed


section \<open>The calls of an invocation\<close>

lemma calls_after_signalApi:
  assumes "signal_typed st"
  shows "calls_after (signalApi e cfg st) =
           map (\<lambda>r. (req_method r, req_url r)) (calls (snd (signalApi_try e cfg st)))"
proof (cases "fst (signalApi_try e cfg st)")
  case None
  then show ?thesis by (simp add: signalApi_cases(1) [OF assms None] calls_after_def)
next
  case (Some err)
  then show ?thesis by (simp add: signalApi_cases(2) [OF assms Some] calls_after_def)
qed

lemma request_proj [simp]:
  "req_method openid_request = GET"
  "req_method (token_request cfg te) = POST"
  "req_method (discovery_request tid) = GET"
  "req_method (signal_request cfg ae tok) = POST"
  "req_url (token_request cfg te) = te"
  "req_url (signal_request cfg ae tok) = JStr (signalUrl ae (contactId cfg) (parameters cfg))"
  by (simp_all add: openid_request_def token_request_def discovery_request_def signal_request_def Let_def)

lemma signalUrl_abc123_x:
  "signalUrl ae ''abc123'' [''x''] =
     js_string ae @ ''/incontactapi/services/v33.0/interactions/abc123/signal?p1=x''"
proof -
  have "queryParams [''x''] = ''p1=x''" by code_simp
  then show ?thesis
    by (simp add: signalUrl_def signal_path_def API_VERSION_def)
qed

text \<open>
  C2, as the code has it. From an empty cache, with contact id \<open>abc123\<close> and parameters
  \<open>["x"]\<close>, an invocation in which every call succeeds performs exactly four outbound
  calls, in this order: the OpenID configuration \<open>GET\<close>, the token \<open>POST\<close>, the
  \<open>cxone-configuration\<close> discovery \<open>GET\<close> for the tenant of the new token, and the signal
  \<open>POST\<close> to \<open><apiEndpoint>/incontactapi/services/v33.0/interactions/abc123/signal?p1=x\<close>.
  Afterwards the cache holds the token, its tenant id and both endpoints (the response being
  stored elsewhere than over the cache).
\<close>

theorem empty_cache_success:
  assumes typed: "signal_typed st" and empty: "signalCache st = empty_cache"
    and cid: "contactId cfg = ''abc123''" and ps: "parameters cfg = [''x'']"
    and noalias: "\<not> (storageType cfg = ''context'' \<and> storageKey cfg = ''signal'')"
    and openid: "http e openid_request = Resolved r1"
    and te: "te = get_prop (resp_data r1) ''token_endpoint''" "truthy te"
    and tokreq: "http e (token_request cfg te) = Resolved r2"
    and tok: "tok = get_prop (resp_data r2) ''access_token''" "truthy tok"
    and dec: "decodeJWT e tok = Inr claims" "member claims ''tenantId'' = Inr tid"
    and disc: "http e (discovery_request tid) = Resolved r3"
    and ae: "ae = get_prop (resp_data r3) ''api_endpoint''" "truthy ae"
    and sig: "http e (signal_request cfg ae tok) = Resolved r4"
  shows "\<exists>st'. signalApi e cfg st = Returned st'
           \<and> calls st' = calls st @
                [openid_request, token_request cfg te, discovery_request tid, signal_request cfg ae tok]
           \<and> map req_method
                [openid_request, token_request cfg te, discovery_request tid, signal_request cfg ae tok] =
                [GET, POST, GET, POST]
           \<and> req_url (signal_request cfg ae tok) =
                JStr (js_string ae @ ''/incontactapi/services/v33.0/interactions/abc123/signal?p1=x'')
           \<and> ctxt st' ''signal'' =
                Some (CCache \<lparr>token = tok, tenantId = tid, apiEndpoint = ae, tokenEndpoint = te,
                              error = None\<rparr>)"
proof -
  have n: "\<not> truthy (token (signalCache st))" "\<not> truthy (tokenEndpoint (signalCache st))"
    "\<not> truthy (apiEndpoint (signalCache st))"
    by (simp_all add: empty empty_cache_def)
  note R = full_refresh_run [OF typed n openid te tokreq tok dec disc ae sig]
  have "signalApi e cfg st = Returned (snd (signalApi_try e cfg st))"
    by (rule signalApi_cases(1) [OF typed R(1)])
  moreover have "ctxt (snd (signalApi_try e cfg st)) ''signal'' =
      Some (CCache \<lparr>token = tok, tenantId = tid, apiEndpoint = ae, tokenEndpoint = te, error = None\<rparr>)"
    using R(3) [OF noalias] by (simp add: empty empty_cache_def)
  ultimately show ?thesis
    using R(2) by (simp add: cid ps signalUrl_abc123_x)
qed

lemma healthy_run:
  "fst (signalApi_try (platform 1700000000 healthy_remote) example_config empty_state) = None"
  "calls (snd (signalApi_try (platform 1700000000 healthy_remote) example_config empty_state)) =
     [openid_request, token_request example_config (JStr remote_token_endpoint),
      discovery_request (JStr ''t1''),
      signal_request example_config (JStr ''https://api.example'') (JStr fresh_token)]"
proof -
  let ?e = "platform 1700000000 healthy_remote"
  have n: "\<not> truthy (token (signalCache empty_state))"
    "\<not> truthy (tokenEndpoint (signalCache empty_state))"
    "\<not> truthy (apiEndpoint (signalCache empty_state))"
    by (simp_all add: empty_cache_def)
  have 1: "http ?e openid_request =
      Resolved \<lparr>resp_data = JObj [(''token_endpoint'', JStr remote_token_endpoint)], resp_status = 200\<rparr>"
    by (simp add: healthy_remote_def remote_openid answer_def)
  have 2: "JStr remote_token_endpoint =
      get_prop (resp_data \<lparr>resp_data = JObj [(''token_endpoint'', JStr remote_token_endpoint)], resp_status = 200\<rparr>) ''token_endpoint''"
    "truthy (JStr remote_token_endpoint)" by simp_all
  have 3: "http ?e (token_request example_config (JStr remote_token_endpoint)) =
      Resolved \<lparr>resp_data = JObj [(''access_token'', JStr fresh_token)], resp_status = 200\<rparr>"
    by (simp add: healthy_remote_def remote_token answer_def)
  have 4: "JStr fresh_token =
      get_prop (resp_data \<lparr>resp_data = JObj [(''access_token'', JStr fresh_token)], resp_status = 200\<rparr>) ''access_token''"
    "truthy (JStr fresh_token)" by simp_all
  have 5: "decodeJWT ?e (JStr fresh_token) = Inr fresh_claims"
    "member fresh_claims ''tenantId'' = Inr (JStr ''t1'')"
    by (simp_all add: decode_fresh member_def fresh_claims_def)
  have 6: "http ?e (discovery_request (JStr ''t1'')) =
      Resolved \<lparr>resp_data = JObj [(''api_endpoint'', JStr ''https://api.example'')], resp_status = 200\<rparr>"
    by (simp add: healthy_remote_def remote_discovery answer_def)
  have 7: "JStr ''https://api.example'' =
      get_prop (resp_data \<lparr>resp_data = JObj [(''api_endpoint'', JStr ''https://api.example'')], resp_status = 200\<rparr>) ''api_endpoint''"
    "truthy (JStr ''https://api.example'')" by simp_all
  have 8: "http ?e (signal_request example_config (JStr ''https://api.example'') (JStr fresh_token)) =
      Resolved \<lparr>resp_data = JObj [(''ok'', JBool True)], resp_status = 200\<rparr>"
    by (simp add: healthy_remote_def remote_signal answer_def)
  note R = full_refresh_run [OF typed_empty_state(1) n 1 2 3 4 5 6 7 8]
  show "fst (signalApi_try ?e example_config empty_state) = None" by (rule R(1))
  from R(2) show "calls (snd (signalApi_try ?e example_config empty_state)) =
     [openid_request, token_request example_config (JStr remote_token_endpoint),
      discovery_request (JStr ''t1''),
      signal_request example_config (JStr ''https://api.example'') (JStr fresh_token)]"
    by (simp add: empty_state_def)
qed

text \<open>
  C2 as stated fails: the successful invocation from the empty cache makes four outbound
  calls, not three; the third is the discovery of the API endpoint.
\<close>

theorem empty_cache_calls_counterexample:
  "calls_after (signalApi (platform 1700000000 healthy_remote) example_config empty_state) =
     [(GET, JStr ''https://cxone.niceincontact.com/.well-known/openid-configuration''),
      (POST, JStr ''https://cxone.niceincontact.com/auth/token''),
      (GET, JStr ''https://cxone.niceincontact.com/.well-known/cxone-configuration?tenantId=t1''),
      (POST, JStr ''https://api.example/incontactapi/services/v33.0/interactions/abc123/signal?p1=x'')]
   \<and> length (calls_after (signalApi (platform 1700000000 healthy_remote) example_config empty_state)) \<noteq> 3"
proof -
  have "calls_after (signalApi (platform 1700000000 healthy_remote) example_config empty_state) =
     [(GET, JStr ''https://cxone.niceincontact.com/.well-known/openid-configuration''),
      (POST, JStr ''https://cxone.niceincontact.com/auth/token''),
      (GET, JStr ''https://cxone.niceincontact.com/.well-known/cxone-configuration?tenantId=t1''),
      (POST, JStr ''https://api.example/incontactapi/services/v33.0/interactions/abc123/signal?p1=x'')]"
    by (simp add: calls_after_signalApi healthy_run(2) signalUrl_abc123_x openid_request_def
          discovery_request_def BASE_URL_def remote_token_endpoint_def)
  then show ?thesis by simp
qed


theorem empty_cache_success_witness:
  "signal_typed empty_state \<and> signalCache empty_state = empty_cache
   \<and> contactId example_config = ''abc123'' \<and> parameters example_config = [''x'']
   \<and> cache_after (signalApi (platform 1700000000 healthy_remote) example_config empty_state) =
       Some \<lparr>token = JStr fresh_token, tenantId = JStr ''t1'',
              apiEndpoint = JStr ''https://api.example'',
              tokenEndpoint = JStr remote_token_endpoint, error = None\<rparr>"
proof -
  let ?e = "platform 1700000000 healthy_remote"
  have 0: "\<not> (storageType example_config = ''context'' \<and> storageKey example_config = ''signal'')"
    by simp
  have 1: "http ?e openid_request =
      Resolved \<lparr>resp_data = JObj [(''token_endpoint'', JStr remote_token_endpoint)], resp_status = 200\<rparr>"
    by (simp add: healthy_remote_def remote_openid answer_def)
  have 2: "JStr remote_token_endpoint =
      get_prop (resp_data \<lparr>resp_data = JObj [(''token_endpoint'', JStr remote_token_endpoint)], resp_status = 200\<rparr>) ''token_endpoint''"
    "truthy (JStr remote_token_endpoint)" by simp_all
  have 3: "http ?e (token_request example_config (JStr remote_token_endpoint)) =
      Resolved \<lparr>resp_data = JObj [(''access_token'', JStr fresh_token)], resp_status = 200\<rparr>"
    by (simp add: healthy_remote_def remote_token answer_def)
  have 4: "JStr fresh_token =
      get_prop (resp_data \<lparr>resp_data = JObj [(''access_token'', JStr fresh_token)], resp_status = 200\<rparr>) ''access_token''"
    "truthy (JStr fresh_token)" by simp_all
  have 5: "decodeJWT ?e (JStr fresh_token) = Inr fresh_claims"
    "member fresh_claims ''tenantId'' = Inr (JStr ''t1'')"
    by (simp_all add: decode_fresh member_def fresh_claims_def)
  have 6: "http ?e (discovery_request (JStr ''t1'')) =
      Resolved \<lparr>resp_data = JObj [(''api_endpoint'', JStr ''https://api.example'')], resp_status = 200\<rparr>"
    by (simp add: healthy_remote_def remote_discovery answer_def)
  have 7: "JStr ''https://api.example'' =
      get_prop (resp_data \<lparr>resp_data = JObj [(''api_endpoint'', JStr ''https://api.example'')], resp_status = 200\<rparr>) ''api_endpoint''"
    "truthy (JStr ''https://api.example'')" by simp_all
  have 8: "http ?e (signal_request example_config (JStr ''https://api.example'') (JStr fresh_token)) =
      Resolved \<lparr>resp_data = JObj [(''ok'', JBool True)], resp_status = 200\<rparr>"
    by (simp add: healthy_remote_def remote_signal answer_def)
  from empty_cache_success [OF typed_empty_state example_config_proj(3,4) 0 1 2 3 4 5 6 7 8]
  obtain st' where "signalApi ?e example_config empty_state = Returned st'"
    and "ctxt st' ''signal'' =
           Some (CCache \<lparr>token = JStr fresh_token, tenantId = JStr ''t1'',
              apiEndpoint = JStr ''https://api.example'',
              tokenEndpoint = JStr remote_token_endpoint, error = None\<rparr>)"
    by blast
  then show ?thesis by (simp add: cache_after_Returned)
qed

lemma request_distinct [simp]:
  "discovery_request tid \<noteq> openid_request"
  "signal_request cfg ae tok \<noteq> openid_request"
  "discovery_request tid \<noteq> token_request cfg te"
  "signal_request cfg ae tok \<noteq> token_request cfg te"
  "openid_request \<noteq> discovery_request tid"
  "openid_request \<noteq> signal_request cfg ae tok"
  "token_request cfg te \<noteq> discovery_request tid"
  "token_request cfg te \<noteq> signal_request cfg ae tok"
  by (simp_all add: discovery_request_def openid_request_def signal_request_def token_request_def
        BASE_URL_def Let_def)

lemma not_expired:
  assumes "get_prop claims ''exp'' = JNum ex" and "now e + 60 \<le> ex" and "0 \<le> now e"
  shows "isTokenExpired e claims = Inr False"
proof -
  from assms(1) have "claims \<noteq> JNull" "claims \<noteq> JUndefined" by auto
  then have "member claims ''exp'' = Inr (JNum ex)"
    using assms(1) by (cases claims) (simp_all add: member_def)
  with assms(2,3) show ?thesis
    by (simp add: isTokenExpired_def js_less_def)
qed

text \<open>
  C3, as the code has it. When the cache holds a token that decodes and whose \<open>exp\<close> is at
  least 60 seconds ahead of the clock, the invocation makes no OpenID configuration call and
  no token request. It makes the signal call alone when an API endpoint is cached;
  otherwise it first makes the \<open>cxone-configuration\<close> discovery call for the token's tenant,
  and then the signal call if that discovery yields an endpoint.
\<close>

theorem valid_cached_token_calls:
  assumes has: "ctxt st ''signal'' = Some (CCache c)"
    and dec: "decodeJWT e (token c) = Inr claims"
    and ex: "get_prop claims ''exp'' = JNum ex" and ahead: "now e + 60 \<le> ex"
    and clock: "0 \<le> now e"
  shows "\<exists>st' new. signalApi e cfg st = Returned st' \<and> calls st' = calls st @ new
           \<and> openid_request \<notin> set new \<and> (\<forall>te. token_request cfg te \<notin> set new)
           \<and> new =
               (if truthy (apiEndpoint c) then [signal_request cfg (apiEndpoint c) (token c)]
                else discovery_request (get_prop claims ''tenantId'') #
                  (case http e (discovery_request (get_prop claims ''tenantId'')) of
                     Resolved r \<Rightarrow>
                       if truthy (get_prop (resp_data r) ''api_endpoint'')
                       then [signal_request cfg (get_prop (resp_data r) ''api_endpoint'') (token c)]
                       else []
                   | Rejected err \<Rightarrow> []))"
proof -
  let ?new = "if truthy (apiEndpoint c) then [signal_request cfg (apiEndpoint c) (token c)]
                else discovery_request (get_prop claims ''tenantId'') #
                  (case http e (discovery_request (get_prop claims ''tenantId'')) of
                     Resolved r \<Rightarrow>
                       if truthy (get_prop (resp_data r) ''api_endpoint'')
                       then [signal_request cfg (get_prop (resp_data r) ''api_endpoint'') (token c)]
                       else []
                   | Rejected err \<Rightarrow> [])"
  from has have typed: "signal_typed st" by (simp add: signal_typed_def)
  have fresh: "isTokenExpired e claims = Inr False" by (rule not_expired [OF ex ahead clock])
  have cl: "calls (snd (signalApi_try e cfg st)) = calls st @ ?new"
    by (rule cached_valid_run [OF has dec fresh])
  have "\<exists>st'. signalApi e cfg st = Returned st' \<and> calls st' = calls st @ ?new"
  proof (cases "fst (signalApi_try e cfg st)")
    case None
    with cl show ?thesis by (simp add: signalApi_cases(1) [OF typed None])
  next
    case (Some err)
    with cl show ?thesis by (simp add: signalApi_cases(2) [OF typed Some])
  qed
  moreover have "openid_request \<notin> set ?new"
    by (auto split: http_result.splits)
  moreover have "\<forall>te. token_request cfg te \<notin> set ?new"
    by (auto split: http_result.splits)
  ultimately show ?thesis by blast
qed

theorem valid_cached_token_calls_witness:
  "ctxt (cached_state valid_cache) ''signal'' = Some (CCache valid_cache)
   \<and> decodeJWT (platform 1700000000 healthy_remote) (token valid_cache) = Inr fresh_claims
   \<and> get_prop fresh_claims ''exp'' = JNum 4102444800
   \<and> now (platform 1700000000 healthy_remote) + 60 \<le> 4102444800
   \<and> 0 \<le> now (platform 1700000000 healthy_remote)
   \<and> calls_after (signalApi (platform 1700000000 healthy_remote) example_config (cached_state valid_cache)) =
       [(POST, JStr ''https://api.example/incontactapi/services/v33.0/interactions/abc123/signal?p1=x'')]"
proof -
  let ?e = "platform 1700000000 healthy_remote"
  have 1: "ctxt (cached_state valid_cache) ''signal'' = Some (CCache valid_cache)" by simp
  have 2: "decodeJWT ?e (token valid_cache) = Inr fresh_claims"
    by (simp add: valid_cache_def decode_fresh)
  have 3: "get_prop fresh_claims ''exp'' = JNum 4102444800" by (simp add: fresh_claims_def)
  have 4: "now ?e + 60 \<le> 4102444800" by simp
  have 5: "0 \<le> now ?e" by simp
  from valid_cached_token_calls [OF 1 2 3 4 5, of example_config]
  obtain st' where "signalApi ?e example_config (cached_state valid_cache) = Returned st'"
    and "calls st' = calls (cached_state valid_cache) @
           [signal_request example_config (apiEndpoint valid_cache) (token valid_cache)]"
    by (auto simp: valid_cache_def)
  then have "calls_after (signalApi ?e example_config (cached_state valid_cache)) =
       [(POST, JStr ''https://api.example/incontactapi/services/v33.0/interactions/abc123/signal?p1=x'')]"
    by (simp add: calls_after_def valid_cache_def signalUrl_abc123_x)
  with 1 2 3 4 5 show ?thesis by blast
qed

text \<open>
  C3 as stated fails: with a valid cached token and no cached API endpoint the invocation
  makes a discovery call before the signal call.
\<close>

theorem valid_token_discovery_counterexample:
  "decodeJWT (platform 1700000000 healthy_remote) (token token_only_cache) = Inr fresh_claims
   \<and> isTokenExpired (platform 1700000000 healthy_remote) fresh_claims = Inr False
   \<and> calls_after (signalApi (platform 1700000000 healthy_remote) example_config
        (cached_state token_only_cache)) =
       [(GET, JStr ''https://cxone.niceincontact.com/.well-known/cxone-configuration?tenantId=t1''),
        (POST, JStr ''https://api.example/incontactapi/services/v33.0/interactions/abc123/signal?p1=x'')]"
proof -
  let ?e = "platform 1700000000 healthy_remote"
  have 1: "ctxt (cached_state token_only_cache) ''signal'' = Some (CCache token_only_cache)" by simp
  have 2: "decodeJWT ?e (token token_only_cache) = Inr fresh_claims"
    by (simp add: token_only_cache_def decode_fresh)
  have 3: "isTokenExpired ?e fresh_claims = Inr False" by (rule fresh_not_expired)
  have 4: "healthy_remote (discovery_request (JStr ''t1'')) =
      Resolved \<lparr>resp_data = JObj [(''api_endpoint'', JStr ''https://api.example'')], resp_status = 200\<rparr>"
    by (simp add: healthy_remote_def remote_discovery answer_def)
  have 5: "get_prop fresh_claims ''tenantId'' = JStr ''t1''" by (simp add: fresh_claims_def)
  have "calls (snd (signalApi_try ?e example_config (cached_state token_only_cache))) =
      [discovery_request (JStr ''t1''),
       signal_request example_config (JStr ''https://api.example'') (JStr fresh_token)]"
    using cached_valid_run [OF 1 2 3, of example_config]
    by (simp add: 4 5 token_only_cache_def)
  then have "calls_after (signalApi ?e example_config (cached_state token_only_cache)) =
       [(GET, JStr ''https://cxone.niceincontact.com/.well-known/cxone-configuration?tenantId=t1''),
        (POST, JStr ''https://api.example/incontactapi/services/v33.0/interactions/abc123/signal?p1=x'')]"
    by (simp add: calls_after_signalApi signalUrl_abc123_x discovery_request_def BASE_URL_def)
  with 2 3 show ?thesis by blast
qed


section \<open>Failing stages\<close>

text \<open>
  C5. With no token and no token endpoint cached, when the OpenID configuration yields a
  token endpoint and the token response has no (truthy) \<open>access_token\<close>, the invocation
  makes exactly those two calls and returns with the error
  \<open>Failed to retrieve access token from response\<close> recorded; the cache's token is still
  unset, and the token endpoint discovered in this invocation is cached.
\<close>

theorem token_response_without_access_token:
  assumes typed: "signal_typed st"
    and no_token: "token (signalCache st) = JUndefined"
    and no_te: "\<not> truthy (tokenEndpoint (signalCache st))"
    and openid: "http e openid_request = Resolved r1"
    and te: "te = get_prop (resp_data r1) ''token_endpoint''" "truthy te"
    and tokreq: "http e (token_request cfg te) = Resolved r2"
    and tok: "\<not> truthy (get_prop (resp_data r2) ''access_token'')"
  shows "\<exists>st' c. signalApi e cfg st = Returned st' \<and> ctxt st' ''signal'' = Some (CCache c)
           \<and> token c = JUndefined \<and> tokenEndpoint c = te
           \<and> error c =
               Some \<lparr>step = ''unknown'', message = ''Failed to retrieve access token from response'',
                      details = Inr (new_Error ''Failed to retrieve access token from response'')\<rparr>
           \<and> calls st' = calls st @ [openid_request, token_request cfg te]"
proof -
  let ?err = "new_Error ''Failed to retrieve access token from response''"
  let ?s1 = "snd (signalApi_try e cfg st)"
  from no_token have nt: "\<not> truthy (token (signalCache st))" by simp
  note R = token_missing_run [OF typed nt no_te openid te tokreq tok]
  from R(1) have run: "signalApi_try e cfg st = (Some ?err, ?s1)" by (simp add: prod_eq_iff)
  from try_failure(3) [OF typed run] have i: "init_signal ?s1 = ?s1"
    by (rule init_signal_has_cache)
  have d: "errorDetails ?err =
      \<lparr>step = ''unknown'', message = ''Failed to retrieve access token from response'',
       details = Inr ?err\<rparr>"
    by (simp add: errorDetails_def new_Error_def err_step_def)
  have "signalApi e cfg st = Returned (signalApi_catch ?err ?s1)"
    by (rule signalApi_cases(2) [OF typed R(1)])
  moreover have "ctxt (signalApi_catch ?err ?s1) ''signal'' =
      Some (CCache ((signalCache st)\<lparr>tokenEndpoint := te, error := Some (errorDetails ?err)\<rparr>))"
    using i R(2) by simp
  moreover have "calls (signalApi_catch ?err ?s1) = calls st @ [openid_request, token_request cfg te]"
    using R(3) by simp
  ultimately show ?thesis using no_token d by simp
qed

theorem token_response_without_access_token_witness:
  "signal_typed empty_state \<and> token (signalCache empty_state) = JUndefined
   \<and> \<not> truthy (tokenEndpoint (signalCache empty_state))
   \<and> map_option token
        (cache_after (signalApi
           (platform 1700000000
              (remote (Some (JObj [(''token_endpoint'', JStr remote_token_endpoint)]))
                 (Some (JObj [(''token_type'', JStr ''bearer'')])) None None))
           example_config empty_state)) = Some JUndefined
   \<and> map_option tokenEndpoint
        (cache_after (signalApi
           (platform 1700000000
              (remote (Some (JObj [(''token_endpoint'', JStr remote_token_endpoint)]))
                 (Some (JObj [(''token_type'', JStr ''bearer'')])) None None))
           example_config empty_state)) = Some (JStr remote_token_endpoint)"
proof -
  let ?h = "remote (Some (JObj [(''token_endpoint'', JStr remote_token_endpoint)]))
                 (Some (JObj [(''token_type'', JStr ''bearer'')])) None None"
  let ?e = "platform 1700000000 ?h"
  have 0: "token (signalCache empty_state) = JUndefined"
    "\<not> truthy (tokenEndpoint (signalCache empty_state))"
    by (simp_all add: empty_cache_def)
  have 1: "http ?e openid_request =
      Resolved \<lparr>resp_data = JObj [(''token_endpoint'', JStr remote_token_endpoint)], resp_status = 200\<rparr>"
    by (simp add: remote_openid answer_def)
  have 2: "JStr remote_token_endpoint =
      get_prop (resp_data \<lparr>resp_data = JObj [(''token_endpoint'', JStr remote_token_endpoint)], resp_status = 200\<rparr>) ''token_endpoint''"
    "truthy (JStr remote_token_endpoint)" by simp_all
  have 3: "http ?e (token_request example_config (JStr remote_token_endpoint)) =
      Resolved \<lparr>resp_data = JObj [(''token_type'', JStr ''bearer'')], resp_status = 200\<rparr>"
    by (simp add: remote_token answer_def)
  have 4: "\<not> truthy (get_prop (resp_data \<lparr>resp_data = JObj [(''token_type'', JStr ''bearer'')], resp_status = 200\<rparr>) ''access_token'')"
    by simp
  from token_response_without_access_token [OF typed_empty_state(1) 0 1 2 3 4]
  obtain st' c where "signalApi ?e example_config empty_state = Returned st'"
    and "ctxt st' ''signal'' = Some (CCache c)" and "token c = JUndefined"
    and "tokenEndpoint c = JStr remote_token_endpoint"
    by blast
  then show ?thesis using 0 by (simp add: cache_after_Returned)
qed

text \<open>
  C6 against the code: from an empty cache, with an OpenID configuration that has no
  \<open>token_endpoint\<close>, the discovery stage fails and the recorded error has the step
  \<open>unknown\<close>, not \<open>openid-configuration\<close>.
\<close>

theorem failed_discovery_step_unknown:
  "error_after (signalApi (platform 1700000000 (remote (Some (JObj [])) None None None))
       example_config empty_state) =
     Some \<lparr>step = ''unknown'',
            message = ''Failed to retrieve token_endpoint from OpenID configuration'',
            details = Inr (new_Error ''Failed to retrieve token_endpoint from OpenID configuration'')\<rparr>"
proof -
  let ?e = "platform 1700000000 (remote (Some (JObj [])) None None None)"
  let ?err = "new_Error ''Failed to retrieve token_endpoint from OpenID configuration''"
  have n: "\<not> truthy (token (signalCache empty_state))"
    "\<not> truthy (tokenEndpoint (signalCache empty_state))"
    by (simp_all add: empty_cache_def)
  have 1: "http ?e openid_request = Resolved \<lparr>resp_data = JObj [], resp_status = 200\<rparr>"
    by (simp add: remote_openid answer_def)
  have 2: "\<not> truthy (get_prop (resp_data \<lparr>resp_data = JObj [], resp_status = 200\<rparr>) ''token_endpoint'')"
    by simp
  note R = openid_missing_run [OF typed_empty_state(1) n 1 2, of example_config]
  have "cache_after (signalApi ?e example_config empty_state) =
      Some (empty_cache\<lparr>error := Some (errorDetails ?err)\<rparr>)"
    using failure_cache_after [OF typed_empty_state(1) R(1)] R(2) by simp
  then show ?thesis
    by (simp add: error_after_def errorDetails_def new_Error_def err_step_def)
qed


end
